theory Spec2Isabelle
  imports Complex_Main "HOL-Library.Multiset"
begin

section \<open>The document store of \<open>src/db/index.ts\<close>\<close>

text \<open>
  The class \<open>Db\<close> wraps one collection per Mongoose model. A collection is modelled as
  the list of its documents in insertion order; \<open>findOne\<close> returns the first document
  that matches the filter and \<open>findOneAndUpdate\<close> rewrites that same first document
  (no upsert option is ever passed). The schema module \<open>./models\<close> is not among the
  sources: a document is a record of the fields that \<open>Db\<close> reads and writes, and a field
  that was never written reads as \<open>undefined\<close> (\<open>None\<close>), an array field as the empty
  array. JavaScript numbers are integers here (block numbers, era indices, timestamps
  in ms, point counts); quotients are rationals.

  The methods are \<open>async\<close>; the model runs each call to completion before the next one
  starts, so an update whose promise the source does not await is applied at the place
  where it is issued. \<open>Date.now()\<close> is the parameter \<open>clock\<close>.
\<close>

subsection \<open>Documents\<close>

text \<open>
  Modelled from the spec: the Mongoose schemas of \<open>./models\<close> (\<open>CandidateSchema\<close>,
  \<open>DelayedTxSchema\<close>, \<open>EraPointsSchema\<close>, \<open>TotalEraPointsSchema\<close>,
  \<open>ChainMetadataSchema\<close>), which are not among the sources. The records below hold
  the fields of the spec's data model that the modelled methods of \<open>Db\<close> read or
  write, under the names \<open>Db\<close> uses for them.
\<close>

text \<open>The pieces of a template literal, before JavaScript renders the numbers as text.\<close>

datatype part = Str string | Num rat | Undefined

record invalidityReason =
  inv_valid :: bool
  inv_type :: string
  inv_updated :: int
  inv_details :: "part list"

record rankEvent =
  rank_when :: int
  rank_startEra :: int
  rank_activeEra :: int

record faultEvent =
  fault_when :: int
  fault_reason :: string
  fault_prevRank :: "int option"

record candidate =
  name :: string
  stash :: "string option"
  kusamaStash :: "string option"
  skipSelfStake :: "bool option"
  bio :: "string option"
  telemetryId :: "int option"
  networkId :: "string option"
  nodeRefs :: "int option"
  version :: "string option"
  discoveredAt :: "int option"
  onlineSince :: "int option"
  offlineSince :: "int option"
  offlineAccumulated :: "int option"
  rank :: "int option"
  invalidity :: "invalidityReason list"
  rankEvents :: "rankEvent list"
  faultEvents :: "faultEvent list"

record delayedTx =
  dtx_number :: int
  dtx_controller :: string
  dtx_targets :: "string list"
  dtx_callHash :: string

record validatorPoints =
  vp_address :: string
  vp_eraPoints :: int

record eraPointsDoc =
  ep_address :: string
  ep_era :: int
  ep_eraPoints :: int

record totalEraPointsDoc =
  tep_era :: int
  tep_totalEraPoints :: int
  tep_validatorsEraPoints :: "validatorPoints list"
  tep_median :: "rat option"
  tep_average :: rat
  tep_max :: "int option"
  tep_min :: "int option"

record chainMetadata =
  cm_name :: string
  cm_decimals :: int

text \<open>
  The store: the collections the modelled methods touch, and \<open>writes\<close>, the number of
  write commands (\<open>save\<close>, \<open>findOneAndUpdate\<close>, \<open>deleteOne\<close>) issued so far.
\<close>

record db =
  candidateModel :: "candidate list"
  delayedTxModel :: "delayedTx list"
  eraPointsModel :: "eraPointsDoc list"
  totalEraPointsModel :: "totalEraPointsDoc list"
  chainMetadataModel :: "chainMetadata list"
  writes :: nat

definition emptyDb :: db where
  "emptyDb = \<lparr>candidateModel = [], delayedTxModel = [], eraPointsModel = [],
     totalEraPointsModel = [], chainMetadataModel = [], writes = 0\<rparr>"

text \<open>What a method's promise resolves to.\<close>

datatype 'a ret = RetUndefined | RetBool bool | RetDoc "'a option"

subsection \<open>Driver primitives\<close>

definition findOne :: "('a \<Rightarrow> bool) \<Rightarrow> 'a list \<Rightarrow> 'a option" where
  "findOne q docs = find q docs"

fun updateFirst :: "('a \<Rightarrow> bool) \<Rightarrow> ('a \<Rightarrow> 'a) \<Rightarrow> 'a list \<Rightarrow> 'a list" where
  "updateFirst q f [] = []"
| "updateFirst q f (d # ds) = (if q d then f d # ds else d # updateFirst q f ds)"

definition candidate_save :: "candidate \<Rightarrow> db \<Rightarrow> db" where
  "candidate_save c s =
     s\<lparr>candidateModel := candidateModel s @ [c], writes := Suc (writes s)\<rparr>"

definition candidate_findOneAndUpdate ::
  "(candidate \<Rightarrow> bool) \<Rightarrow> (candidate \<Rightarrow> candidate) \<Rightarrow> db \<Rightarrow> db" where
  "candidate_findOneAndUpdate q f s =
     s\<lparr>candidateModel := updateFirst q f (candidateModel s), writes := Suc (writes s)\<rparr>"

text \<open>A new candidate document on which only \<open>name\<close> is set.\<close>

definition newCandidate :: "string \<Rightarrow> candidate" where
  "newCandidate n = \<lparr>name = n, stash = None, kusamaStash = None, skipSelfStake = None,
     bio = None, telemetryId = None, networkId = None, nodeRefs = None, version = None,
     discoveredAt = None, onlineSince = None, offlineSince = None,
     offlineAccumulated = None, rank = None, invalidity = [], rankEvents = [],
     faultEvents = []\<rparr>"

text \<open>JavaScript truthiness of an optional number.\<close>

definition truthyNum :: "int option \<Rightarrow> bool" where
  "truthyNum x = (case x of None \<Rightarrow> False | Some n \<Rightarrow> n \<noteq> 0)"

text \<open>\<open>x || 0\<close> on an optional number.\<close>

definition numOr0 :: "int option \<Rightarrow> int" where
  "numOr0 x = (case x of None \<Rightarrow> 0 | Some n \<Rightarrow> n)"

definition numPart :: "int option \<Rightarrow> part" where
  "numPart x = (case x of None \<Rightarrow> Undefined | Some n \<Rightarrow> Num (of_int n))"

definition inc :: "int \<Rightarrow> int option \<Rightarrow> int option" where
  "inc k x = (case x of None \<Rightarrow> Some k | Some n \<Rightarrow> Some (n + k))"

subsection \<open>Rank and fault events\<close>

definition pushRankEvent :: "int \<Rightarrow> string \<Rightarrow> int \<Rightarrow> int \<Rightarrow> db \<Rightarrow> bool \<times> db" where
  "pushRankEvent clock stash' startEra activeEra s =
     (case findOne (\<lambda>c. stash c = Some stash') (candidateModel s) of
        None \<Rightarrow> (False, s)
      | Some record \<Rightarrow>
          let alreadyRank = list_ex (\<lambda>r. rank_startEra r = startEra) (rankEvents record)
          in if alreadyRank then (False, s)
             else (True,
               candidate_findOneAndUpdate (\<lambda>c. stash c = Some stash')
                 (\<lambda>c. c\<lparr>rankEvents := rankEvents c @
                    [\<lparr>rank_when = clock, rank_startEra = startEra,
                      rank_activeEra = activeEra\<rparr>]\<rparr>) s))"

definition pushFaultEvent :: "int \<Rightarrow> string \<Rightarrow> string \<Rightarrow> db \<Rightarrow> bool \<times> db" where
  "pushFaultEvent clock stash' reason s =
     (case findOne (\<lambda>c. stash c = Some stash') (candidateModel s) of
        None \<Rightarrow> (False, s)
      | Some record \<Rightarrow>
          let alreadyFault = list_ex (\<lambda>f. fault_reason f = reason) (faultEvents record)
          in if alreadyFault then (True, s)
             else (False,
               candidate_findOneAndUpdate (\<lambda>c. stash c = Some stash')
                 (\<lambda>c. c\<lparr>faultEvents := faultEvents c @
                    [\<lparr>fault_when = clock, fault_reason = reason,
                      fault_prevRank = rank record\<rparr>]\<rparr>) s))"

subsection \<open>Typed invalidity setters\<close>

text \<open>
  The twelve setters (\<open>setOnlineValidity\<close> to \<open>setKusamaRankInvalidity\<close>) are twelve
  copies of one body that differ in the type string and in the failure text:
  look the candidate up by stash and return if there is none; drop the entries of
  the setter's own type from the list read; write the rest back followed by one
  new entry. \<open>setInvalidityOfType\<close> is that body; \<open>text\<close> builds the failure
  text from the document read.
\<close>

definition setInvalidityOfType ::
  "string \<Rightarrow> (candidate \<Rightarrow> part list) \<Rightarrow> int \<Rightarrow> string \<Rightarrow> bool \<Rightarrow> db \<Rightarrow> db" where
  "setInvalidityOfType ty text clock address validity s =
     (case findOne (\<lambda>c. stash c = Some address) (candidateModel s) of
        None \<Rightarrow> s
      | Some data \<Rightarrow>
          let invalidityReasons = filter (\<lambda>r. inv_type r \<noteq> ty) (invalidity data)
          in candidate_findOneAndUpdate (\<lambda>c. stash c = Some address)
               (\<lambda>c. c\<lparr>invalidity := invalidityReasons @
                  [\<lparr>inv_valid = validity, inv_type = ty, inv_updated = clock,
                    inv_details = (if validity then [] else text data)\<rparr>]\<rparr>) s)"

text \<open>
  The failure text of the setters with an optional \<open>details\<close> argument: the
  argument when it is truthy (given and not the empty string), else the default.
\<close>

definition detailsOr :: "string option \<Rightarrow> string \<Rightarrow> candidate \<Rightarrow> part list" where
  "detailsOr details dflt data =
     (case details of
        None \<Rightarrow> [Str (name data @ dflt)]
      | Some d \<Rightarrow> if d \<noteq> [] then [Str d] else [Str (name data @ dflt)])"

definition setOnlineValidity :: "int \<Rightarrow> string \<Rightarrow> bool \<Rightarrow> db \<Rightarrow> db" where
  "setOnlineValidity = setInvalidityOfType ''ONLINE''
     (\<lambda>data. [Str (name data @ '' offline. Offline since ''),
        numPart (offlineSince data), Str ''.''])"

definition setValidateIntentionValidity :: "int \<Rightarrow> string \<Rightarrow> bool \<Rightarrow> db \<Rightarrow> db" where
  "setValidateIntentionValidity = setInvalidityOfType ''VALIDATE_INTENTION''
     (\<lambda>data. [Str (name data @ '' does not have a validate intention.'')])"

definition setLatestClientReleaseValidity :: "int \<Rightarrow> string \<Rightarrow> bool \<Rightarrow> db \<Rightarrow> db" where
  "setLatestClientReleaseValidity = setInvalidityOfType ''CLIENT_UPGRADE''
     (\<lambda>data. [Str (name data @ '' is not on the latest client version'')])"

definition setConnectionTimeInvalidity :: "int \<Rightarrow> string \<Rightarrow> bool \<Rightarrow> db \<Rightarrow> db" where
  "setConnectionTimeInvalidity = setInvalidityOfType ''CONNECTION_TIME''
     (\<lambda>data. [Str (name data @ '' has not been connected for minimum length'')])"

definition setIdentityInvalidity ::
  "int \<Rightarrow> string \<Rightarrow> bool \<Rightarrow> string option \<Rightarrow> db \<Rightarrow> db" where
  "setIdentityInvalidity clock address validity details =
     setInvalidityOfType ''IDENTITY''
       (detailsOr details '' has not properly set their identity'') clock address validity"

text \<open>The entry that \<open>setIdentityInvalidity\<close> appends.\<close>

definition identityEntry :: "int \<Rightarrow> bool \<Rightarrow> string option \<Rightarrow> candidate \<Rightarrow> invalidityReason" where
  "identityEntry clock validity details data =
     \<lparr>inv_valid = validity, inv_type = ''IDENTITY'', inv_updated = clock,
      inv_details = (if validity then []
         else detailsOr details '' has not properly set their identity'' data)\<rparr>"

definition setOfflineAccumulatedInvalidity :: "int \<Rightarrow> string \<Rightarrow> bool \<Rightarrow> db \<Rightarrow> db" where
  "setOfflineAccumulatedInvalidity = setInvalidityOfType ''ACCUMULATED_OFFLINE_TIME''
     (\<lambda>data. [Str (name data @ '' has been offline ''),
        (case offlineAccumulated data of None \<Rightarrow> Undefined
         | Some ms \<Rightarrow> Num (of_int ms / 1000 / 60)),
        Str '' minutes this week.''])"

definition setRewardDestinationInvalidity :: "int \<Rightarrow> string \<Rightarrow> bool \<Rightarrow> db \<Rightarrow> db" where
  "setRewardDestinationInvalidity = setInvalidityOfType ''REWARD_DESTINATION''
     (\<lambda>data. [Str (name data @ '' does not have reward destination as Staked'')])"

definition setCommissionInvalidity ::
  "int \<Rightarrow> string \<Rightarrow> bool \<Rightarrow> string option \<Rightarrow> db \<Rightarrow> db" where
  "setCommissionInvalidity clock address validity details =
     setInvalidityOfType ''COMMISION''
       (detailsOr details '' has not properly set their commission'') clock address validity"

definition setSelfStakeInvalidity ::
  "int \<Rightarrow> string \<Rightarrow> bool \<Rightarrow> string option \<Rightarrow> db \<Rightarrow> db" where
  "setSelfStakeInvalidity clock address validity details =
     setInvalidityOfType ''SELF_STAKE''
       (detailsOr details '' has not properly bonded enough self stake'')
       clock address validity"

definition setUnclaimedInvalidity ::
  "int \<Rightarrow> string \<Rightarrow> bool \<Rightarrow> string option \<Rightarrow> db \<Rightarrow> db" where
  "setUnclaimedInvalidity clock address validity details =
     setInvalidityOfType ''UNCLAIMED_REWARDS''
       (detailsOr details '' has not properly claimed era rewards'') clock address validity"

definition setBlockedInvalidity ::
  "int \<Rightarrow> string \<Rightarrow> bool \<Rightarrow> string option \<Rightarrow> db \<Rightarrow> db" where
  "setBlockedInvalidity clock address validity details =
     setInvalidityOfType ''BLOCKED''
       (detailsOr details '' blocks external nominations'') clock address validity"

definition setKusamaRankInvalidity ::
  "int \<Rightarrow> string \<Rightarrow> bool \<Rightarrow> string option \<Rightarrow> db \<Rightarrow> db" where
  "setKusamaRankInvalidity clock address validity details =
     setInvalidityOfType ''KUSAMA_RANK''
       (detailsOr details '' has not properly claimed era rewards'') clock address validity"

subsection \<open>Telemetry reports\<close>

type_synonym NodeDetails = "string \<times> string \<times> string \<times> string \<times> string"

definition details0 :: "NodeDetails \<Rightarrow> string" where
  "details0 d = fst d"

definition details2 :: "NodeDetails \<Rightarrow> string" where
  "details2 d = fst (snd (snd d))"

definition onlineEntry :: "int \<Rightarrow> invalidityReason" where
  "onlineEntry clock =
     \<lparr>inv_valid = True, inv_type = ''ONLINE'', inv_updated = clock, inv_details = []\<rparr>"

definition offlineEntry :: "int \<Rightarrow> candidate \<Rightarrow> invalidityReason" where
  "offlineEntry clock data =
     \<lparr>inv_valid = False, inv_type = ''ONLINE'', inv_updated = clock,
      inv_details = [Str (name data @ '' offline. Offline since ''),
        numPart (offlineSince data), Str ''.'']\<rparr>"

text \<open>
  \<open>(data.offlineAccumulated || 0) + (now - data.offlineSince)\<close>; it is evaluated only
  where \<open>data.offlineSince\<close> is a number other than 0.
\<close>

definition accumulatedOffline :: "int \<Rightarrow> candidate \<Rightarrow> int" where
  "accumulatedOffline now data =
     numOr0 (offlineAccumulated data) + (now - numOr0 (offlineSince data))"

text \<open>
  \<open>reportBestBlock\<close> looks the candidate up with the filter \<open>{ telemetryId }\<close> but hands
  the bare number \<open>telemetryId\<close> to \<open>findOneAndUpdate\<close> as its filter. Which document
  the driver then selects is not decided by \<open>Db\<close>; the selection is the parameter
  \<open>sel\<close>.
\<close>

definition reportBestBlock ::
  "(int \<Rightarrow> candidate \<Rightarrow> bool) \<Rightarrow> int \<Rightarrow> int \<Rightarrow> NodeDetails \<Rightarrow> int \<Rightarrow> db \<Rightarrow> bool \<times> db" where
  "reportBestBlock sel clock telemetryId' details now s =
     (case findOne (\<lambda>c. telemetryId c = Some telemetryId') (candidateModel s) of
        None \<Rightarrow> (False, s)
      | Some data \<Rightarrow>
          if truthyNum (offlineSince data) then
            let invalidityReasons = filter (\<lambda>r. inv_type r \<noteq> ''ONLINE'') (invalidity data);
                accumulated = accumulatedOffline now data
            in (True,
                candidate_findOneAndUpdate (sel telemetryId')
                  (\<lambda>c. c\<lparr>offlineSince := Some 0, onlineSince := Some now,
                       offlineAccumulated := Some accumulated,
                       invalidity := invalidityReasons @ [onlineEntry clock]\<rparr>) s)
          else (True, s))"

definition reportOnline ::
  "int \<Rightarrow> int \<Rightarrow> NodeDetails \<Rightarrow> int \<Rightarrow> db \<Rightarrow> candidate ret \<times> db" where
  "reportOnline clock telemetryId' details now s =
     (let name' = details0 details; version' = details2 details
      in case findOne (\<lambda>c. name c = name') (candidateModel s) of
           None \<Rightarrow>
             let candidate = (newCandidate name')\<lparr>telemetryId := Some telemetryId',
                   networkId := None, nodeRefs := Some 1, version := Some version',
                   discoveredAt := Some now, onlineSince := Some now,
                   offlineSince := Some 0\<rparr>
             in (RetDoc (Some candidate), candidate_save candidate s)
         | Some data \<Rightarrow>
             let invalidityReasons =
                   filter (\<lambda>r. inv_type r \<noteq> ''ONLINE'') (invalidity data);
                 s1 = (if \<not> truthyNum (discoveredAt data)
                       then candidate_findOneAndUpdate (\<lambda>c. name c = name')
                              (\<lambda>c. c\<lparr>telemetryId := Some telemetryId',
                                   discoveredAt := Some now, onlineSince := Some now,
                                   offlineSince := Some 0,
                                   invalidity := invalidityReasons @ [onlineEntry clock]\<rparr>) s
                       else s);
                 s2 = candidate_findOneAndUpdate (\<lambda>c. name c = name')
                        (\<lambda>c. c\<lparr>telemetryId := Some telemetryId', onlineSince := Some now,
                             version := Some version',
                             invalidity := invalidityReasons @ [onlineEntry clock],
                             nodeRefs := inc 1 (nodeRefs c)\<rparr>) s1
             in if truthyNum (offlineSince data)
                then (RetDoc (findOne (\<lambda>c. name c = name') (candidateModel s2)),
                      candidate_findOneAndUpdate (\<lambda>c. name c = name')
                        (\<lambda>c. c\<lparr>offlineSince := Some 0,
                             offlineAccumulated := Some (accumulatedOffline now data)\<rparr>) s2)
                else (RetUndefined, s2))"

definition reportOffline ::
  "int \<Rightarrow> int \<Rightarrow> string \<Rightarrow> int \<Rightarrow> db \<Rightarrow> candidate ret \<times> db" where
  "reportOffline clock telemetryId' name' now s =
     (case findOne (\<lambda>c. telemetryId c = Some telemetryId') (candidateModel s) of
        None \<Rightarrow> (RetBool False, s)
      | Some data \<Rightarrow>
          let invalidityReasons = filter (\<lambda>r. inv_type r \<noteq> ''ONLINE'') (invalidity data)
          in if (case nodeRefs data of None \<Rightarrow> False | Some n \<Rightarrow> n > 1)
             then (RetDoc (Some data),
                   candidate_findOneAndUpdate (\<lambda>c. telemetryId c = Some telemetryId')
                     (\<lambda>c. c\<lparr>nodeRefs := inc (- 1) (nodeRefs c),
                          invalidity := invalidityReasons @ [offlineEntry clock data]\<rparr>) s)
             else (RetDoc (Some data),
                   candidate_findOneAndUpdate (\<lambda>c. telemetryId c = Some telemetryId')
                     (\<lambda>c. c\<lparr>offlineSince := Some now, onlineSince := Some 0,
                          nodeRefs := inc (- 1) (nodeRefs c),
                          invalidity := invalidityReasons @ [offlineEntry clock data]\<rparr>) s))"

subsection \<open>Candidates from the configuration, and the candidate listing\<close>

text \<open>
  \<open>addCandidate\<close> reads the chain metadata singleton (a missing singleton makes
  \<open>.name\<close> throw a TypeError) and re-encodes the stash with
  \<open>keyring.encodeAddress\<close> of \<open>@polkadot/keyring\<close>, which throws on a string that is
  not a valid address. The keyring is the parameter \<open>encodeAddress\<close>; \<open>None\<close> is its
  throw. Both throws come before the first store access, so the promise rejects and
  nothing is written. The method is modelled as called without the optional \<open>bot\<close>,
  which it only uses to send a message.
\<close>

datatype error = TypeError | InvalidAddress | DuplicateKey

definition getChainMetadata :: "db \<Rightarrow> chainMetadata option" where
  "getChainMetadata s = findOne (\<lambda>m. True) (chainMetadataModel s)"

definition ss58Prefix :: "chainMetadata \<Rightarrow> int" where
  "ss58Prefix meta = (if cm_name meta = ''Kusama'' then 2 else 0)"

definition addCandidate ::
  "(string \<Rightarrow> int \<Rightarrow> string option) \<Rightarrow> string \<Rightarrow> string \<Rightarrow> string \<Rightarrow> bool \<Rightarrow> string
     \<Rightarrow> db \<Rightarrow> error + db" where
  "addCandidate encodeAddress name' stash' kusamaStash' skipSelfStake' bio' s =
     (case getChainMetadata s of
        None \<Rightarrow> Inl TypeError
      | Some meta \<Rightarrow>
          (case encodeAddress stash' (ss58Prefix meta) of
             None \<Rightarrow> Inl InvalidAddress
           | Some stash'' \<Rightarrow>
               (case findOne (\<lambda>c. name c = name') (candidateModel s) of
                  None \<Rightarrow>
                    Inr (candidate_save
                      ((newCandidate name')\<lparr>stash := Some stash'',
                         kusamaStash := Some kusamaStash',
                         skipSelfStake := Some skipSelfStake', bio := Some bio'\<rparr>) s)
                | Some data \<Rightarrow>
                    Inr (candidate_findOneAndUpdate (\<lambda>c. name c = name')
                      (\<lambda>c. c\<lparr>stash := Some stash'', kusamaStash := Some kusamaStash',
                           skipSelfStake := Some skipSelfStake', bio := Some bio'\<rparr>) s))))"

text \<open>
  \<open>find({ stash: /.*/ })\<close>: the regular expression matches every string and nothing
  else, so the listing holds the documents whose stash is set to a string.
\<close>

definition allCandidates :: "db \<Rightarrow> candidate list" where
  "allCandidates s = filter (\<lambda>c. stash c \<noteq> None) (candidateModel s)"

definition allNodes :: "db \<Rightarrow> candidate list" where
  "allNodes s = candidateModel s"

subsection \<open>The invariant of the invalidity list\<close>

definition invalidityTypes :: "string list" where
  "invalidityTypes = [''ONLINE'', ''VALIDATE_INTENTION'', ''CLIENT_UPGRADE'',
     ''CONNECTION_TIME'', ''IDENTITY'', ''ACCUMULATED_OFFLINE_TIME'',
     ''REWARD_DESTINATION'', ''COMMISION'', ''SELF_STAKE'', ''UNCLAIMED_REWARDS'',
     ''BLOCKED'', ''KUSAMA_RANK'']"

definition entriesOfType :: "string \<Rightarrow> invalidityReason list \<Rightarrow> invalidityReason list" where
  "entriesOfType t rs = filter (\<lambda>r. inv_type r = t) rs"

definition atMostOnePerType :: "invalidityReason list \<Rightarrow> bool" where
  "atMostOnePerType rs = (\<forall>t \<in> set invalidityTypes. length (entriesOfType t rs) \<le> 1)"

definition invalidityInvariant :: "db \<Rightarrow> bool" where
  "invalidityInvariant s = (\<forall>c \<in> set (candidateModel s). atMostOnePerType (invalidity c))"

text \<open>The store operations that rewrite \<open>invalidity\<close>, as one type of commands.\<close>

datatype invalidityWrite =
    SetOnlineValidity string bool
  | SetValidateIntentionValidity string bool
  | SetLatestClientReleaseValidity string bool
  | SetConnectionTimeInvalidity string bool
  | SetIdentityInvalidity string bool "string option"
  | SetOfflineAccumulatedInvalidity string bool
  | SetRewardDestinationInvalidity string bool
  | SetCommissionInvalidity string bool "string option"
  | SetSelfStakeInvalidity string bool "string option"
  | SetUnclaimedInvalidity string bool "string option"
  | SetBlockedInvalidity string bool "string option"
  | SetKusamaRankInvalidity string bool "string option"
  | ReportOnline int NodeDetails int
  | ReportOffline int string int
  | ReportBestBlock int NodeDetails int

fun run :: "(int \<Rightarrow> candidate \<Rightarrow> bool) \<Rightarrow> int \<Rightarrow> invalidityWrite \<Rightarrow> db \<Rightarrow> db" where
  "run sel clock (SetOnlineValidity a v) s = setOnlineValidity clock a v s"
| "run sel clock (SetValidateIntentionValidity a v) s = setValidateIntentionValidity clock a v s"
| "run sel clock (SetLatestClientReleaseValidity a v) s =
     setLatestClientReleaseValidity clock a v s"
| "run sel clock (SetConnectionTimeInvalidity a v) s = setConnectionTimeInvalidity clock a v s"
| "run sel clock (SetIdentityInvalidity a v d) s = setIdentityInvalidity clock a v d s"
| "run sel clock (SetOfflineAccumulatedInvalidity a v) s =
     setOfflineAccumulatedInvalidity clock a v s"
| "run sel clock (SetRewardDestinationInvalidity a v) s =
     setRewardDestinationInvalidity clock a v s"
| "run sel clock (SetCommissionInvalidity a v d) s = setCommissionInvalidity clock a v d s"
| "run sel clock (SetSelfStakeInvalidity a v d) s = setSelfStakeInvalidity clock a v d s"
| "run sel clock (SetUnclaimedInvalidity a v d) s = setUnclaimedInvalidity clock a v d s"
| "run sel clock (SetBlockedInvalidity a v d) s = setBlockedInvalidity clock a v d s"
| "run sel clock (SetKusamaRankInvalidity a v d) s = setKusamaRankInvalidity clock a v d s"
| "run sel clock (ReportOnline t d now) s = snd (reportOnline clock t d now s)"
| "run sel clock (ReportOffline t n now) s = snd (reportOffline clock t n now s)"
| "run sel clock (ReportBestBlock t d now) s = snd (reportBestBlock sel clock t d now s)"

subsection \<open>The writers of candidate documents\<close>

text \<open>
  \<open>Db\<close> creates a candidate document in two places, \<open>addCandidate\<close> and
  \<open>reportOnline\<close>, and never deletes one. Its only update that assigns a string to
  \<open>stash\<close> is the one in \<open>addCandidate\<close>. Every other write to the collection is
  \<open>findOneAndUpdate\<close> on the first match of a filter, or the update of all documents
  in \<open>deleteOldCandidateFields\<close>, with an update document that does not mention
  \<open>name\<close> and either does not mention \<open>stash\<close> or, in \<open>clearCandidates\<close>, sets it to
  \<open>null\<close>. The commands below are the modelled writers other than \<open>addCandidate\<close>,
  and the two shapes of the remaining ones with the update as a function.
\<close>

datatype candidateOp =
    Write invalidityWrite
  | PushRankEvent string int int
  | PushFaultEvent string string
  | UpdateOne "candidate \<Rightarrow> bool" "candidate \<Rightarrow> candidate"
  | UpdateMany "candidate \<Rightarrow> candidate"

definition candidate_updateMany :: "(candidate \<Rightarrow> candidate) \<Rightarrow> db \<Rightarrow> db" where
  "candidate_updateMany f s =
     s\<lparr>candidateModel := map f (candidateModel s), writes := Suc (writes s)\<rparr>"

fun exec :: "(int \<Rightarrow> candidate \<Rightarrow> bool) \<Rightarrow> int \<times> candidateOp \<Rightarrow> db \<Rightarrow> db" where
  "exec sel (clock, Write w) s = run sel clock w s"
| "exec sel (clock, PushRankEvent st startEra activeEra) s =
     snd (pushRankEvent clock st startEra activeEra s)"
| "exec sel (clock, PushFaultEvent st reason) s = snd (pushFaultEvent clock st reason s)"
| "exec sel (clock, UpdateOne q f) s = candidate_findOneAndUpdate q f s"
| "exec sel (clock, UpdateMany f) s = candidate_updateMany f s"

text \<open>An update that leaves \<open>name\<close> alone and leaves \<open>stash\<close> alone or clears it.\<close>

definition assignsNoStash :: "(candidate \<Rightarrow> candidate) \<Rightarrow> bool" where
  "assignsNoStash f =
     (\<forall>c. name (f c) = name c \<and> (stash (f c) = stash c \<or> stash (f c) = None))"

fun noStashWriter :: "int \<times> candidateOp \<Rightarrow> bool" where
  "noStashWriter (clock, UpdateOne q f) = assignsNoStash f"
| "noStashWriter (clock, UpdateMany f) = assignsNoStash f"
| "noStashWriter (clock, op) = True"

text \<open>Some document is stored under the name, and none of them has a stash.\<close>

definition unlisted :: "string \<Rightarrow> db \<Rightarrow> bool" where
  "unlisted n s =
     ((\<exists>c \<in> set (candidateModel s). name c = n) \<and>
      (\<forall>c \<in> set (candidateModel s). name c = n \<longrightarrow> stash c = None))"

text \<open>The update of \<open>clearCandidates\<close>.\<close>

definition clearCandidate :: "candidate \<Rightarrow> candidate" where
  "clearCandidate c = c\<lparr>stash := None, offlineSince := Some 0, offlineAccumulated := Some 0\<rparr>"

subsection \<open>Example stores\<close>

definition seedCandidate :: candidate where
  "seedCandidate = (newCandidate ''alice'')\<lparr>stash := Some ''S'', telemetryId := Some 7,
     nodeRefs := Some 1, offlineSince := Some 40, rank := Some 3,
     invalidity :=
       [\<lparr>inv_valid = True, inv_type = ''ONLINE'', inv_updated = 1, inv_details = []\<rparr>,
        \<lparr>inv_valid = False, inv_type = ''IDENTITY'', inv_updated = 2,
         inv_details = [Str ''alice has not properly set their identity'']\<rparr>],
     rankEvents := [\<lparr>rank_when = 3, rank_startEra = 10, rank_activeEra = 12\<rparr>],
     faultEvents := [\<lparr>fault_when = 4, fault_reason = ''offline'', fault_prevRank = Some 2\<rparr>]\<rparr>"

definition seedDb :: db where
  "seedDb = emptyDb\<lparr>candidateModel := [seedCandidate],
     chainMetadataModel := [\<lparr>cm_name = ''Kusama'', cm_decimals = 12\<rparr>]\<rparr>"

subsection \<open>Statistics of an era's points\<close>

text \<open>
  The local functions of \<open>setTotalEraPoints\<close>. \<open>Array.prototype.sort\<close> with the
  comparator \<open>a - b\<close> sorts numbers ascending. \<open>getMedian\<close> logs an error and returns
  \<open>undefined\<close> on the empty array; \<open>reduce\<close> without an initial value throws a
  TypeError on it.
\<close>

definition getMedian :: "int list \<Rightarrow> rat option" where
  "getMedian array =
     (if length array \<ge> 1 then
        let array' = sort array
        in if length array' mod 2 = 0
           then Some ((of_int (array' ! (length array' div 2 - 1))
                        + of_int (array' ! (length array' div 2))) / 2)
           else Some (of_int (array' ! ((length array' - 1) div 2)))
      else None)"

definition getAverage :: "int list \<Rightarrow> error + rat" where
  "getAverage list =
     (case list of
        [] \<Rightarrow> Inl TypeError
      | x # xs \<Rightarrow> Inr (of_int (foldl (\<lambda>prev curr. prev + curr) x xs) / of_nat (length list)))"

text \<open>
  The spec's definition of the median, in its own words: sort ascending; the middle
  element if the length is odd; the mean of the two middle elements if it is even;
  undefined on empty input. The middle of a sorted list of length \<open>2k + 1\<close> is the
  element with \<open>k\<close> elements on either side; the two middle elements of one of length
  \<open>2k\<close> are those with \<open>k - 1\<close> elements outside them on either side.
\<close>

fun middle :: "int list \<Rightarrow> rat option" where
  "middle [] = None"
| "middle [x] = Some (of_int x)"
| "middle [x, y] = Some ((of_int x + of_int y) / 2)"
| "middle (x # y # zs) = middle (butlast (y # zs))"

definition median_spec :: "int list \<Rightarrow> rat option" where
  "median_spec points = middle (sort points)"

section \<open>The era points job of \<open>src/jobs.ts\<close>\<close>

subsection \<open>Storing era points\<close>

text \<open>
  \<open>setEraPoints\<close> returns without a write when a row for (era, address) holds the
  same points, inserts when there is none, and updates otherwise.
\<close>

definition setEraPoints :: "int \<Rightarrow> int \<Rightarrow> string \<Rightarrow> db \<Rightarrow> db" where
  "setEraPoints era points address s =
     (let q = (\<lambda>d. ep_address d = address \<and> ep_era d = era)
      in case findOne q (eraPointsModel s) of
           Some data \<Rightarrow>
             if ep_eraPoints data = points then s
             else s\<lparr>eraPointsModel :=
                      updateFirst q (\<lambda>d. d\<lparr>ep_eraPoints := points\<rparr>) (eraPointsModel s),
                    writes := Suc (writes s)\<rparr>
         | None \<Rightarrow>
             s\<lparr>eraPointsModel := eraPointsModel s @
                    [\<lparr>ep_address = address, ep_era = era, ep_eraPoints = points\<rparr>],
               writes := Suc (writes s)\<rparr>)"

text \<open>
  \<open>setTotalEraPoints\<close> first stores the points of every validator. Its early return
  compares \<open>data.total\<close> with the argument; the document it reads has the fields
  \<open>era\<close>, \<open>totalEraPoints\<close>, \<open>validatorsEraPoints\<close>, \<open>median\<close>, \<open>average\<close>, \<open>max\<close>
  and \<open>min\<close> (the ones this method writes and \<open>eraPointsJob\<close> reads) and none named
  \<open>total\<close>, so \<open>data.total\<close> is \<open>undefined\<close>, and \<open>undefined == total\<close> is false for
  every number. \<open>data.median\<close> is truthy when the median is set and not 0.
  On an empty \<open>validators\<close> array \<open>getAverage\<close> throws.
\<close>

definition data_total :: "totalEraPointsDoc \<Rightarrow> int option" where
  "data_total data = None"

definition looseEq :: "int option \<Rightarrow> int \<Rightarrow> bool" where
  "looseEq x n = (case x of None \<Rightarrow> False | Some m \<Rightarrow> m = n)"

definition truthyRat :: "rat option \<Rightarrow> bool" where
  "truthyRat x = (case x of None \<Rightarrow> False | Some r \<Rightarrow> r \<noteq> 0)"

text \<open>
  \<open>Math.max(...points)\<close> and \<open>Math.min(...points)\<close>; \<open>None\<close> stands for the infinities
  they give on no arguments.
\<close>

definition maxOf :: "int list \<Rightarrow> int option" where
  "maxOf points = (case points of [] \<Rightarrow> None | p # ps \<Rightarrow> Some (fold max ps p))"

definition minOf :: "int list \<Rightarrow> int option" where
  "minOf points = (case points of [] \<Rightarrow> None | p # ps \<Rightarrow> Some (fold min ps p))"

definition setTotalEraPoints ::
  "int \<Rightarrow> int \<Rightarrow> validatorPoints list \<Rightarrow> db \<Rightarrow> error + db" where
  "setTotalEraPoints era total' validators s =
     (let s1 = fold (\<lambda>validator. setEraPoints era (vp_eraPoints validator)
                   (vp_address validator)) validators s;
          data = findOne (\<lambda>d. tep_era d = era) (totalEraPointsModel s1)
      in if (case data of None \<Rightarrow> False
             | Some d \<Rightarrow> looseEq (data_total d) total' \<and> truthyRat (tep_median d))
         then Inr s1
         else
           let points = map vp_eraPoints validators
           in case getAverage points of
                Inl e \<Rightarrow> Inl e
              | Inr avg \<Rightarrow>
                  let doc = \<lparr>tep_era = era, tep_totalEraPoints = total',
                        tep_validatorsEraPoints = validators,
                        tep_median = getMedian points, tep_average = avg,
                        tep_max = maxOf points, tep_min = minOf points\<rparr>
                  in (case data of
                        None \<Rightarrow>
                          Inr (s1\<lparr>totalEraPointsModel := totalEraPointsModel s1 @ [doc],
                                 writes := Suc (writes s1)\<rparr>)
                      | Some d \<Rightarrow>
                          Inr (s1\<lparr>totalEraPointsModel :=
                                   updateFirst (\<lambda>d. tep_era d = era) (\<lambda>d. doc)
                                     (totalEraPointsModel s1),
                                 writes := Suc (writes s1)\<rparr>)))"

definition getTotalEraPoints :: "int \<Rightarrow> db \<Rightarrow> totalEraPointsDoc option" where
  "getTotalEraPoints era s = findOne (\<lambda>d. tep_era d = era) (totalEraPointsModel s)"

subsection \<open>The job\<close>

text \<open>
  The chain adapter \<open>./chaindata\<close> is not among the sources; what
  \<open>getTotalEraPoints(era)\<close> answers is the parameter \<open>chain\<close>, what
  \<open>getActiveEraIndex()\<close> answers the parameter \<open>activeEra\<close>.
\<close>

record chainEraPoints =
  ce_era :: int
  ce_total :: int
  ce_validators :: "validatorPoints list"

text \<open>
  The eras the loop
  \<open>for (let i = activeEra - 1; i > activeEra - 84 && i >= 0; i--)\<close>
  visits, in the order it visits them.
\<close>

function visited :: "int \<Rightarrow> int \<Rightarrow> int list" where
  "visited activeEra i =
     (if i > activeEra - 84 \<and> i \<ge> 0 then i # visited activeEra (i - 1) else [])"
  by pat_completeness auto
termination
  by (relation "measure (\<lambda>(activeEra, i). nat (i + 1))") auto

definition skipEra :: "totalEraPointsDoc option \<Rightarrow> bool" where
  "skipEra erapoints =
     (case erapoints of None \<Rightarrow> False
      | Some d \<Rightarrow> tep_totalEraPoints d \<ge> 70000 \<and> truthyRat (tep_median d))"

text \<open>The body of the loop for era \<open>i\<close>; the first throw ends the job.\<close>

definition eraStep :: "(int \<Rightarrow> chainEraPoints) \<Rightarrow> int \<Rightarrow> error + db \<Rightarrow> error + db" where
  "eraStep chain i r =
     (case r of
        Inl e \<Rightarrow> Inl e
      | Inr s \<Rightarrow>
          if skipEra (getTotalEraPoints i s) then Inr s
          else setTotalEraPoints (ce_era (chain i)) (ce_total (chain i))
                 (ce_validators (chain i)) s)"

definition eraPointsJob :: "(int \<Rightarrow> chainEraPoints) \<Rightarrow> int \<Rightarrow> db \<Rightarrow> error + db" where
  "eraPointsJob chain activeEra s =
     (case fold (eraStep chain) (visited activeEra (activeEra - 1)) (Inr s) of
        Inl e \<Rightarrow> Inl e
      | Inr s' \<Rightarrow>
          setTotalEraPoints (ce_era (chain activeEra)) (ce_total (chain activeEra))
            (ce_validators (chain activeEra)) s')"

subsection \<open>An example chain\<close>

definition exampleChain :: "int \<Rightarrow> chainEraPoints" where
  "exampleChain i = \<lparr>ce_era = i, ce_total = 80000,
     ce_validators = [\<lparr>vp_address = ''A'', vp_eraPoints = 30000\<rparr>,
                      \<lparr>vp_address = ''B'', vp_eraPoints = 50000\<rparr>]\<rparr>"

definition exampleTotal :: "int \<Rightarrow> totalEraPointsDoc" where
  "exampleTotal i = \<lparr>tep_era = i, tep_totalEraPoints = 80000,
     tep_validatorsEraPoints = [\<lparr>vp_address = ''A'', vp_eraPoints = 30000\<rparr>,
                                \<lparr>vp_address = ''B'', vp_eraPoints = 50000\<rparr>],
     tep_median = Some 40000, tep_average = 40000, tep_max = Some 50000,
     tep_min = Some 30000\<rparr>"

definition examplePoints :: "int \<Rightarrow> eraPointsDoc list" where
  "examplePoints i = [\<lparr>ep_address = ''A'', ep_era = i, ep_eraPoints = 30000\<rparr>,
                      \<lparr>ep_address = ''B'', ep_era = i, ep_eraPoints = 50000\<rparr>]"

text \<open>The store after a first run of the job at active era 2 on the empty store.\<close>

definition populatedDb :: db where
  "populatedDb = emptyDb\<lparr>
     eraPointsModel := examplePoints 1 @ examplePoints 0 @ examplePoints 2,
     totalEraPointsModel := [exampleTotal 1, exampleTotal 0, exampleTotal 2],
     writes := 9\<rparr>"

section \<open>Delayed transactions\<close>

text \<open>
  \<open>addDelayedTx\<close> builds a new document and saves it; it does not look for an
  existing row. Whether the collection carries a unique index on
  (number, controller) is declared in the schema module, which is not among the
  sources: it is the parameter \<open>uniqueIndex\<close>. With the index a second insert
  under the same key is rejected by the store and the promise rejects.
\<close>

definition addDelayedTx ::
  "bool \<Rightarrow> int \<Rightarrow> string \<Rightarrow> string list \<Rightarrow> string \<Rightarrow> db \<Rightarrow> error + db" where
  "addDelayedTx uniqueIndex number controller targets callHash s =
     (let delayedTx = \<lparr>dtx_number = number, dtx_controller = controller,
            dtx_targets = targets, dtx_callHash = callHash\<rparr>
      in if uniqueIndex \<and>
            list_ex (\<lambda>d. dtx_number d = number \<and> dtx_controller d = controller)
              (delayedTxModel s)
         then Inl DuplicateKey
         else Inr (s\<lparr>delayedTxModel := delayedTxModel s @ [delayedTx],
                     writes := Suc (writes s)\<rparr>))"

definition getAllDelayedTxs :: "db \<Rightarrow> delayedTx list" where
  "getAllDelayedTxs s = delayedTxModel s"

text \<open>\<open>deleteOne\<close> removes the first row that matches.\<close>

fun removeFirst :: "('a \<Rightarrow> bool) \<Rightarrow> 'a list \<Rightarrow> 'a list" where
  "removeFirst q [] = []"
| "removeFirst q (d # ds) = (if q d then ds else d # removeFirst q ds)"

definition deleteDelayedTx :: "int \<Rightarrow> string \<Rightarrow> db \<Rightarrow> db" where
  "deleteDelayedTx number controller s =
     s\<lparr>delayedTxModel :=
         removeFirst (\<lambda>d. dtx_number d = number \<and> dtx_controller d = controller)
           (delayedTxModel s),
       writes := Suc (writes s)\<rparr>"

text \<open>Two calls in a row; the second runs only if the first did not throw.\<close>

definition addDelayedTxTwice ::
  "bool \<Rightarrow> int \<Rightarrow> string \<Rightarrow> string list \<Rightarrow> string \<Rightarrow> db \<Rightarrow> error + db" where
  "addDelayedTxTwice uniqueIndex number controller targets callHash s =
     (case addDelayedTx uniqueIndex number controller targets callHash s of
        Inl e \<Rightarrow> Inl e
      | Inr s1 \<Rightarrow> addDelayedTx uniqueIndex number controller targets callHash s1)"

section \<open>The cron jobs of the scheduler module\<close>

text \<open>
  Each \<open>start...Job\<close> function registers one \<open>CronJob\<close> whose callback the cron
  library calls at every tick, whether or not an earlier call has settled. The
  callbacks come in three shapes:
  \<^item> no latch (Monitor, ClearOffline, Execution, RewardClaim, Cancel, Stale): the
    body runs at every tick;
  \<^item> a latch \<open>let running = false\<close>, tested and set on entry and cleared by the
    statement after the awaited body (Validity, Score, EraStats, ActiveValidator,
    Inclusion, SessionKey, UnclaimedEras, ValidatorPref, ExtNominations);
  \<^item> the same latch with the body inside \<open>try\<close>/\<open>catch\<close> (EraPoints).

  A callback is \<open>async\<close>: between its \<open>await\<close>s other ticks can fire. The state of a
  job is its latch, the number of bodies in flight, the number of bodies entered so
  far, and the number of callback promises that rejected. The events are a tick of
  the job's cron, a body in flight returning, and a body in flight throwing.
\<close>

datatype job =
    Monitor | ClearOffline | Validity | Score | EraStats | Execution | RewardClaim
  | Cancel | Stale | EraPoints | ActiveValidator | Inclusion | SessionKey
  | UnclaimedEras | ValidatorPref | ExtNominations

fun hasLatch :: "job \<Rightarrow> bool" where
  "hasLatch Monitor = False"
| "hasLatch ClearOffline = False"
| "hasLatch Validity = True"
| "hasLatch Score = True"
| "hasLatch EraStats = True"
| "hasLatch Execution = False"
| "hasLatch RewardClaim = False"
| "hasLatch Cancel = False"
| "hasLatch Stale = False"
| "hasLatch EraPoints = True"
| "hasLatch ActiveValidator = True"
| "hasLatch Inclusion = True"
| "hasLatch SessionKey = True"
| "hasLatch UnclaimedEras = True"
| "hasLatch ValidatorPref = True"
| "hasLatch ExtNominations = True"

fun catches :: "job \<Rightarrow> bool" where
  "catches EraPoints = True"
| "catches j = False"

record cron =
  running :: bool
  inFlight :: nat
  entered :: nat
  rejected :: nat

definition idle :: cron where
  "idle = \<lparr>running = False, inFlight = 0, entered = 0, rejected = 0\<rparr>"

datatype event = Tick | BodyReturns | BodyThrows

fun onEvent :: "job \<Rightarrow> event \<Rightarrow> cron \<Rightarrow> cron" where
  "onEvent j Tick c =
     (if hasLatch j \<and> running c then c
      else c\<lparr>running := (if hasLatch j then True else running c),
             inFlight := Suc (inFlight c), entered := Suc (entered c)\<rparr>)"
| "onEvent j BodyReturns c =
     (if inFlight c = 0 then c
      else c\<lparr>running := (if hasLatch j then False else running c),
             inFlight := inFlight c - 1\<rparr>)"
| "onEvent j BodyThrows c =
     (if inFlight c = 0 then c
      else if catches j then c\<lparr>running := False, inFlight := inFlight c - 1\<rparr>
      else c\<lparr>inFlight := inFlight c - 1, rejected := Suc (rejected c)\<rparr>)"

definition trace :: "job \<Rightarrow> event list \<Rightarrow> cron \<Rightarrow> cron" where
  "trace j events c = fold (onEvent j) events c"

subsection \<open>An example of a telemetry sighting\<close>

text \<open>A keyring that accepts one string and rejects every other.\<close>

definition exampleKeyring :: "string \<Rightarrow> int \<Rightarrow> string option" where
  "exampleKeyring a prefix = (if a = ''GOOD'' then Some ''ENCODED'' else None)"

definition bobDetails :: NodeDetails where
  "bobDetails = (''bob'', ''client'', ''0.9.13'', [], ''net'')"

definition exampleOps :: "(int \<times> candidateOp) list" where
  "exampleOps =
     [(101, Write (SetOnlineValidity ''S'' False)),
      (102, UpdateOne (\<lambda>c. name c = ''bob'') clearCandidate),
      (103, Write (ReportOnline 9 bobDetails 60)),
      (104, PushFaultEvent ''S'' ''late'')]"

section \<open>Properties\<close>

subsection \<open>Driver primitives\<close>

lemma findOne_None_iff: "findOne q docs = None \<longleftrightarrow> (\<forall>d \<in> set docs. \<not> q d)"
  by (auto simp: findOne_def find_None_iff)

lemma findOne_Some_split:
  "findOne q docs = Some r \<Longrightarrow>
     \<exists>pre post. docs = pre @ r # post \<and> (\<forall>d \<in> set pre. \<not> q d) \<and> q r"
proof (induction docs)
  case Nil
  then show ?case by (simp add: findOne_def)
next
  case (Cons d ds)
  show ?case
  proof (cases "q d")
    case True
    with Cons.prems have "d = r" by (simp add: findOne_def)
    with True have "d # ds = [] @ r # ds \<and> (\<forall>x \<in> set []. \<not> q x) \<and> q r" by simp
    then show ?thesis by blast
  next
    case False
    with Cons.prems have "findOne q ds = Some r" by (simp add: findOne_def)
    from Cons.IH [OF this] obtain pre post
      where "ds = pre @ r # post" "\<forall>x \<in> set pre. \<not> q x" "q r" by blast
    with False have "d # ds = (d # pre) @ r # post \<and> (\<forall>x \<in> set (d # pre). \<not> q x) \<and> q r"
      by simp
    then show ?thesis by blast
  qed
qed

lemma updateFirst_split:
  "(\<forall>d \<in> set pre. \<not> q d) \<Longrightarrow> q r \<Longrightarrow> updateFirst q f (pre @ r # post) = pre @ f r # post"
  by (induction pre) auto

lemma updateFirst_none: "(\<forall>d \<in> set docs. \<not> q d) \<Longrightarrow> updateFirst q f docs = docs"
  by (induction docs) auto

lemma findOne_split:
  "(\<forall>d \<in> set pre. \<not> q d) \<Longrightarrow> q r \<Longrightarrow> findOne q (pre @ r # post) = Some r"
  by (induction pre) (auto simp: findOne_def)

lemma findOne_updateFirst:
  assumes "findOne q docs = Some r" and "q (f r)"
  shows "findOne q (updateFirst q f docs) = Some (f r)"
proof -
  from findOne_Some_split [OF assms(1)] obtain pre post
    where d: "docs = pre @ r # post" and p: "\<forall>x \<in> set pre. \<not> q x" and r: "q r" by blast
  from p r have "updateFirst q f docs = pre @ f r # post"
    unfolding d by (rule updateFirst_split)
  with p assms(2) show ?thesis by (simp add: findOne_split)
qed

subsection \<open>Rank and fault events\<close>

text \<open>
  Claim C9. For a candidate present under the stash, \<open>pushFaultEvent\<close> returns
  \<open>true\<close> and leaves the store as it was when a fault event with the same reason
  exists, and returns \<open>false\<close> after appending the new event otherwise; with no
  candidate under the stash it returns \<open>false\<close> and writes nothing.
  \<open>pushRankEvent\<close> has the opposite convention: \<open>false\<close> and no write on a
  duplicate start era, \<open>true\<close> after appending.
\<close>

theorem pushFaultEvent_pushRankEvent_returns:
  "(findOne (\<lambda>c. stash c = Some st) (candidateModel s) = None \<longrightarrow>
            pushFaultEvent clock st reason s = (False, s) \<and>
            pushRankEvent clock st startEra activeEra s = (False, s)) \<and>
         (\<forall>r. findOne (\<lambda>c. stash c = Some st) (candidateModel s) = Some r \<longrightarrow>
            (if reason \<in> fault_reason ` set (faultEvents r)
             then pushFaultEvent clock st reason s = (True, s)
             else fst (pushFaultEvent clock st reason s) = False \<and>
                  findOne (\<lambda>c. stash c = Some st)
                      (candidateModel (snd (pushFaultEvent clock st reason s)))
                    = Some (r\<lparr>faultEvents := faultEvents r @
                         [\<lparr>fault_when = clock, fault_reason = reason,
                           fault_prevRank = rank r\<rparr>]\<rparr>)) \<and>
            (if startEra \<in> rank_startEra ` set (rankEvents r)
             then pushRankEvent clock st startEra activeEra s = (False, s)
             else fst (pushRankEvent clock st startEra activeEra s) = True \<and>
                  findOne (\<lambda>c. stash c = Some st)
                      (candidateModel (snd (pushRankEvent clock st startEra activeEra s)))
                    = Some (r\<lparr>rankEvents := rankEvents r @
                         [\<lparr>rank_when = clock, rank_startEra = startEra,
                           rank_activeEra = activeEra\<rparr>]\<rparr>)))"
proof (intro conjI allI impI)
  assume "findOne (\<lambda>c. stash c = Some st) (candidateModel s) = None"
  then show "pushFaultEvent clock st reason s = (False, s)"
    by (simp add: pushFaultEvent_def)
next
  assume "findOne (\<lambda>c. stash c = Some st) (candidateModel s) = None"
  then show "pushRankEvent clock st startEra activeEra s = (False, s)"
    by (simp add: pushRankEvent_def)
next
  fix r assume f: "findOne (\<lambda>c. stash c = Some st) (candidateModel s) = Some r"
  then have q: "stash r = Some st"
    using findOne_Some_split [of "\<lambda>c. stash c = Some st" "candidateModel s" r]
    by auto
  show "if reason \<in> fault_reason ` set (faultEvents r)
        then pushFaultEvent clock st reason s = (True, s)
        else fst (pushFaultEvent clock st reason s) = False \<and>
             findOne (\<lambda>c. stash c = Some st)
                 (candidateModel (snd (pushFaultEvent clock st reason s)))
               = Some (r\<lparr>faultEvents := faultEvents r @
                    [\<lparr>fault_when = clock, fault_reason = reason,
                      fault_prevRank = rank r\<rparr>]\<rparr>)"
    using f q
    by (auto simp: pushFaultEvent_def list_ex_iff candidate_findOneAndUpdate_def
          findOne_updateFirst image_iff)
  show "if startEra \<in> rank_startEra ` set (rankEvents r)
        then pushRankEvent clock st startEra activeEra s = (False, s)
        else fst (pushRankEvent clock st startEra activeEra s) = True \<and>
             findOne (\<lambda>c. stash c = Some st)
                 (candidateModel (snd (pushRankEvent clock st startEra activeEra s)))
               = Some (r\<lparr>rankEvents := rankEvents r @
                    [\<lparr>rank_when = clock, rank_startEra = startEra,
                      rank_activeEra = activeEra\<rparr>]\<rparr>)"
    using f q
    by (auto simp: pushRankEvent_def list_ex_iff candidate_findOneAndUpdate_def
          findOne_updateFirst image_iff)
qed

lemma seedDb_found:
  "findOne (\<lambda>c. stash c = Some ''S'') (candidateModel seedDb) = Some seedCandidate"
  by (simp add: findOne_def seedDb_def seedCandidate_def newCandidate_def emptyDb_def)

theorem pushFaultEvent_pushRankEvent_returns_witness:
  "pushFaultEvent 9 ''S'' ''offline'' seedDb = (True, seedDb) \<and>
   fst (pushFaultEvent 9 ''S'' ''late'' seedDb) = False \<and>
   pushRankEvent 9 ''S'' 10 13 seedDb = (False, seedDb) \<and>
   fst (pushRankEvent 9 ''S'' 11 13 seedDb) = True \<and>
   pushFaultEvent 9 ''X'' ''offline'' seedDb = (False, seedDb)"
proof -
  have none: "findOne (\<lambda>c. stash c = Some ''X'') (candidateModel seedDb) = None"
    by (simp add: findOne_def seedDb_def seedCandidate_def newCandidate_def emptyDb_def)
  have f: "''offline'' \<in> fault_reason ` set (faultEvents seedCandidate)"
    "''late'' \<notin> fault_reason ` set (faultEvents seedCandidate)"
    "10 \<in> rank_startEra ` set (rankEvents seedCandidate)"
    "11 \<notin> rank_startEra ` set (rankEvents seedCandidate)"
    by (simp_all add: seedCandidate_def newCandidate_def)
  show ?thesis
    using seedDb_found none f
      pushFaultEvent_pushRankEvent_returns [of "''S''" seedDb 9 "''offline''" 10 13]
      pushFaultEvent_pushRankEvent_returns [of "''S''" seedDb 9 "''late''" 11 13]
      pushFaultEvent_pushRankEvent_returns [of "''X''" seedDb 9 "''offline''" 10 13]
    by simp
qed

subsection \<open>The invalidity invariant\<close>

lemma findOne_Some_mem: "findOne q docs = Some r \<Longrightarrow> r \<in> set docs \<and> q r"
  using findOne_Some_split [of q docs r] by auto

lemma set_updateFirst: "set (updateFirst q f docs) \<subseteq> set docs \<union> f ` {d \<in> set docs. q d}"
  by (induction docs) auto

lemma entriesOfType_replace:
  "inv_type e = ty \<Longrightarrow>
   entriesOfType t (filter (\<lambda>r. inv_type r \<noteq> ty) rs @ [e]) =
     (if t = ty then [e] else entriesOfType t rs)"
  by (induction rs) (auto simp: entriesOfType_def)

lemma atMostOnePerType_replace:
  assumes "atMostOnePerType rs" and "inv_type e = ty"
  shows "atMostOnePerType (filter (\<lambda>r. inv_type r \<noteq> ty) rs @ [e])"
  using assms by (simp add: atMostOnePerType_def entriesOfType_replace)

lemma invariant_findOneAndUpdate:
  assumes "invalidityInvariant s"
    and "\<And>c. c \<in> set (candidateModel s) \<Longrightarrow> q c \<Longrightarrow> atMostOnePerType (invalidity (f c))"
  shows "invalidityInvariant (candidate_findOneAndUpdate q f s)"
proof -
  have "atMostOnePerType (invalidity c)"
    if "c \<in> set (updateFirst q f (candidateModel s))" for c
  proof -
    from that set_updateFirst [of q f "candidateModel s"]
    have "c \<in> set (candidateModel s) \<or> (\<exists>d \<in> set (candidateModel s). q d \<and> c = f d)"
      by auto
    then show ?thesis
      using assms by (auto simp: invalidityInvariant_def)
  qed
  then show ?thesis
    by (simp add: invalidityInvariant_def candidate_findOneAndUpdate_def)
qed

lemma invariant_save:
  "invalidityInvariant s \<Longrightarrow> atMostOnePerType (invalidity c) \<Longrightarrow>
   invalidityInvariant (candidate_save c s)"
  by (auto simp: invalidityInvariant_def candidate_save_def)

lemma invariant_data:
  "invalidityInvariant s \<Longrightarrow> findOne q (candidateModel s) = Some data \<Longrightarrow>
   atMostOnePerType (invalidity data)"
  using findOne_Some_mem [of q "candidateModel s" data]
  by (auto simp: invalidityInvariant_def)

lemma invariant_setInvalidityOfType:
  assumes "invalidityInvariant s"
  shows "invalidityInvariant (setInvalidityOfType ty text clock address validity s)"
proof (cases "findOne (\<lambda>c. stash c = Some address) (candidateModel s)")
  case None
  with assms show ?thesis by (simp add: setInvalidityOfType_def)
next
  case (Some data)
  from invariant_data [OF assms Some]
  have "atMostOnePerType (filter (\<lambda>r. inv_type r \<noteq> ty) (invalidity data) @
          [\<lparr>inv_valid = validity, inv_type = ty, inv_updated = clock,
            inv_details = (if validity then [] else text data)\<rparr>])"
    by (rule atMostOnePerType_replace) simp
  with assms Some show ?thesis
    by (simp add: setInvalidityOfType_def invariant_findOneAndUpdate)
qed

lemma invariant_online:
  assumes "invalidityInvariant s" and "findOne q (candidateModel s) = Some data"
  shows "atMostOnePerType (filter (\<lambda>r. inv_type r \<noteq> ''ONLINE'') (invalidity data) @
           [onlineEntry clock])"
    and "atMostOnePerType (filter (\<lambda>r. inv_type r \<noteq> ''ONLINE'') (invalidity data) @
           [offlineEntry clock d])"
  using invariant_data [OF assms]
  by (simp_all add: atMostOnePerType_replace onlineEntry_def offlineEntry_def)

lemma invariant_untouched:
  assumes "invalidityInvariant s" and "\<And>c. invalidity (f c) = invalidity c"
  shows "invalidityInvariant (candidate_findOneAndUpdate q f s)"
  using assms by (intro invariant_findOneAndUpdate) (auto simp: invalidityInvariant_def)

lemma invariant_reportBestBlock:
  assumes "invalidityInvariant s"
  shows "invalidityInvariant (snd (reportBestBlock sel clock t d now s))"
proof (cases "findOne (\<lambda>c. telemetryId c = Some t) (candidateModel s)")
  case None
  with assms show ?thesis by (simp add: reportBestBlock_def)
next
  case (Some data)
  note on = invariant_online(1) [OF assms Some, of clock]
  show ?thesis
    using assms Some on
    by (simp add: reportBestBlock_def Let_def invariant_findOneAndUpdate)
qed

lemma invariant_reportOffline:
  assumes "invalidityInvariant s"
  shows "invalidityInvariant (snd (reportOffline clock t n now s))"
proof (cases "findOne (\<lambda>c. telemetryId c = Some t) (candidateModel s)")
  case None
  with assms show ?thesis by (simp add: reportOffline_def)
next
  case (Some data)
  note off = invariant_online(2) [OF assms Some, of clock data]
  show ?thesis
    using assms Some off
    by (simp add: reportOffline_def Let_def invariant_findOneAndUpdate)
qed

lemma invariant_reportOnline:
  assumes "invalidityInvariant s"
  shows "invalidityInvariant (snd (reportOnline clock t d now s))"
proof (cases "findOne (\<lambda>c. name c = details0 d) (candidateModel s)")
  case None
  have "atMostOnePerType []" by (simp add: atMostOnePerType_def entriesOfType_def)
  with assms None show ?thesis
    by (simp add: reportOnline_def Let_def invariant_save newCandidate_def)
next
  case (Some data)
  note on = invariant_online(1) [OF assms Some, of clock]
  define rs where "rs = filter (\<lambda>r. inv_type r \<noteq> ''ONLINE'') (invalidity data) @ [onlineEntry clock]"
  define s1 where "s1 = (if \<not> truthyNum (discoveredAt data)
       then candidate_findOneAndUpdate (\<lambda>c. name c = details0 d)
              (\<lambda>c. c\<lparr>telemetryId := Some t, discoveredAt := Some now, onlineSince := Some now,
                   offlineSince := Some 0, invalidity := rs\<rparr>) s
       else s)"
  define s2 where "s2 = candidate_findOneAndUpdate (\<lambda>c. name c = details0 d)
       (\<lambda>c. c\<lparr>telemetryId := Some t, onlineSince := Some now, version := Some (details2 d),
            invalidity := rs, nodeRefs := inc 1 (nodeRefs c)\<rparr>) s1"
  define s3 where "s3 = candidate_findOneAndUpdate (\<lambda>c. name c = details0 d)
       (\<lambda>c. c\<lparr>offlineSince := Some 0,
            offlineAccumulated := Some (accumulatedOffline now data)\<rparr>) s2"
  have i1: "invalidityInvariant s1"
    using assms on by (simp add: s1_def rs_def invariant_findOneAndUpdate)
  have i2: "invalidityInvariant s2"
    unfolding s2_def using i1 on by (simp add: rs_def invariant_findOneAndUpdate)
  have i3: "invalidityInvariant s3"
    unfolding s3_def using i2 by (rule invariant_untouched) simp
  have "snd (reportOnline clock t d now s) = (if truthyNum (offlineSince data) then s3 else s2)"
    using Some by (simp add: reportOnline_def Let_def s1_def s2_def s3_def rs_def)
  with i2 i3 show ?thesis by simp
qed

text \<open>
  Claim C2. Every store operation that rewrites \<open>invalidity\<close> (the twelve typed
  setters, \<open>reportOnline\<close>, \<open>reportOffline\<close>, \<open>reportBestBlock\<close>) preserves the
  invariant that every candidate's list holds at most one entry of each type of the
  closed set; for \<open>reportBestBlock\<close> whichever document the driver selects for the
  update.
\<close>

theorem invalidity_at_most_one_per_type_preserved:
  assumes "invalidityInvariant s"
  shows "invalidityInvariant (run sel clock w s)"
  using assms
  by (cases w)
    (simp_all add: setOnlineValidity_def setValidateIntentionValidity_def
      setLatestClientReleaseValidity_def setConnectionTimeInvalidity_def
      setIdentityInvalidity_def setOfflineAccumulatedInvalidity_def
      setRewardDestinationInvalidity_def setCommissionInvalidity_def
      setSelfStakeInvalidity_def setUnclaimedInvalidity_def setBlockedInvalidity_def
      setKusamaRankInvalidity_def invariant_setInvalidityOfType invariant_reportOnline
      invariant_reportOffline invariant_reportBestBlock)

lemma seedDb_invariant: "invalidityInvariant seedDb"
  by (simp add: invalidityInvariant_def seedDb_def seedCandidate_def newCandidate_def
      emptyDb_def atMostOnePerType_def invalidityTypes_def entriesOfType_def)

theorem invalidity_at_most_one_per_type_preserved_witness:
  "invalidityInvariant seedDb \<and>
   invalidityInvariant
     (run (\<lambda>t c. telemetryId c = Some t) 100
        (ReportBestBlock 7 (''alice'', ''c'', ''0.9'', '''', ''n'') 50) seedDb) \<and>
   invalidityInvariant (run (\<lambda>t c. True) 100 (SetIdentityInvalidity ''S'' True None) seedDb)"
  using seedDb_invariant
    invalidity_at_most_one_per_type_preserved [of seedDb "\<lambda>t c. telemetryId c = Some t" 100
      "ReportBestBlock 7 (''alice'', ''c'', ''0.9'', '''', ''n'') 50"]
    invalidity_at_most_one_per_type_preserved [of seedDb "\<lambda>t c. True" 100
      "SetIdentityInvalidity ''S'' True None"]
  by simp

subsection \<open>Replacing the IDENTITY entry\<close>

text \<open>
  Claim C5. When a candidate is stored under the stash \<open>addr\<close>, after
  \<open>setIdentityInvalidity(addr, v)\<close> that candidate's invalidity list holds exactly
  one IDENTITY entry, that entry has \<open>valid = v\<close>, and the entries of every other
  type are the ones it held before, in the same order. Nothing else in the
  collection changes.
\<close>

theorem setIdentityInvalidity_replaces_entry:
  assumes "findOne (\<lambda>c. stash c = Some addr) (candidateModel s) = Some c"
  shows "\<exists>pre post.
           candidateModel s = pre @ c # post \<and>
           candidateModel (setIdentityInvalidity clock addr v details s) =
             pre @ c\<lparr>invalidity := filter (\<lambda>r. inv_type r \<noteq> ''IDENTITY'') (invalidity c) @
                      [identityEntry clock v details c]\<rparr> # post \<and>
           findOne (\<lambda>c. stash c = Some addr)
               (candidateModel (setIdentityInvalidity clock addr v details s)) =
             Some (c\<lparr>invalidity := filter (\<lambda>r. inv_type r \<noteq> ''IDENTITY'') (invalidity c) @
                      [identityEntry clock v details c]\<rparr>) \<and>
           entriesOfType ''IDENTITY''
               (filter (\<lambda>r. inv_type r \<noteq> ''IDENTITY'') (invalidity c) @
                  [identityEntry clock v details c]) = [identityEntry clock v details c] \<and>
           inv_valid (identityEntry clock v details c) = v \<and>
           (\<forall>t. t \<noteq> ''IDENTITY'' \<longrightarrow>
              entriesOfType t (filter (\<lambda>r. inv_type r \<noteq> ''IDENTITY'') (invalidity c) @
                  [identityEntry clock v details c])
                = entriesOfType t (invalidity c))"
proof -
  let ?q = "\<lambda>c. stash c = Some addr"
  let ?e = "identityEntry clock v details c"
  define f where "f = (\<lambda>d::candidate. d\<lparr>invalidity :=
     filter (\<lambda>r. inv_type r \<noteq> ''IDENTITY'') (invalidity c) @ [?e]\<rparr>)"
  from findOne_Some_split [OF assms] obtain pre post
    where d: "candidateModel s = pre @ c # post" and p: "\<forall>x \<in> set pre. \<not> ?q x" and r: "?q c"
    by blast
  have s': "candidateModel (setIdentityInvalidity clock addr v details s) =
      updateFirst ?q f (candidateModel s)"
    using assms
    by (simp add: setIdentityInvalidity_def setInvalidityOfType_def Let_def
        candidate_findOneAndUpdate_def f_def identityEntry_def)
  from p r have u: "updateFirst ?q f (candidateModel s) = pre @ f c # post"
    unfolding d by (rule updateFirst_split)
  have qf: "?q (f c)" using r by (simp add: f_def)
  have 1: "candidateModel (setIdentityInvalidity clock addr v details s) = pre @ f c # post"
    using s' u by simp
  have 2: "findOne ?q (candidateModel (setIdentityInvalidity clock addr v details s)) = Some (f c)"
    unfolding 1 using p qf by (rule findOne_split)
  have te: "inv_type ?e = ''IDENTITY''" "inv_valid ?e = v" by (simp_all add: identityEntry_def)
  have 3: "entriesOfType t (filter (\<lambda>r. inv_type r \<noteq> ''IDENTITY'') (invalidity c) @ [?e]) =
      (if t = ''IDENTITY'' then [?e] else entriesOfType t (invalidity c))" for t
    using te(1) by (rule entriesOfType_replace)
  show ?thesis
    using d 1 2 te 3 unfolding f_def by (intro exI [of _ pre] exI [of _ post]) simp
qed

theorem setIdentityInvalidity_replaces_entry_witness:
  "findOne (\<lambda>c. stash c = Some ''S'')
     (candidateModel (setIdentityInvalidity 100 ''S'' True None seedDb)) =
   Some (seedCandidate\<lparr>invalidity :=
     [\<lparr>inv_valid = True, inv_type = ''ONLINE'', inv_updated = 1, inv_details = []\<rparr>,
      \<lparr>inv_valid = True, inv_type = ''IDENTITY'', inv_updated = 100, inv_details = []\<rparr>]\<rparr>)"
proof -
  from setIdentityInvalidity_replaces_entry [OF seedDb_found, of 100 True None]
  have "findOne (\<lambda>c. stash c = Some ''S'')
        (candidateModel (setIdentityInvalidity 100 ''S'' True None seedDb)) =
      Some (seedCandidate\<lparr>invalidity :=
        filter (\<lambda>r. inv_type r \<noteq> ''IDENTITY'') (invalidity seedCandidate) @
          [identityEntry 100 True None seedCandidate]\<rparr>)"
    by blast
  then show ?thesis
    by (simp add: seedCandidate_def newCandidate_def identityEntry_def)
qed

subsection \<open>Candidates first seen through telemetry\<close>

lemma findOne_append_new:
  "findOne q docs = None \<Longrightarrow> q c \<Longrightarrow> findOne q (docs @ [c]) = Some c"
  using findOne_split [of docs q c "[]"] by (simp add: findOne_None_iff)

lemma updateFirst_append_new:
  "findOne q docs = None \<Longrightarrow> q c \<Longrightarrow> updateFirst q f (docs @ [c]) = docs @ [f c]"
  using updateFirst_split [of docs q c f "[]"] by (simp add: findOne_None_iff)

lemma map_name_updateFirst:
  "(\<And>c. name (f c) = name c) \<Longrightarrow> map name (updateFirst q f docs) = map name docs"
  by (induction docs) auto

lemma assignsNoStash_name: "assignsNoStash f \<Longrightarrow> name (f c) = name c"
  unfolding assignsNoStash_def by blast

lemma assignsNoStash_stash: "assignsNoStash f \<Longrightarrow> stash c = None \<Longrightarrow> stash (f c) = None"
  unfolding assignsNoStash_def by metis

lemma unlisted_findOneAndUpdate:
  assumes "unlisted n s" and "assignsNoStash f"
  shows "unlisted n (candidate_findOneAndUpdate q f s)"
proof -
  from assms(2) have nm: "name (f c) = name c" for c by (rule assignsNoStash_name)
  have "name ` set (updateFirst q f (candidateModel s)) = name ` set (candidateModel s)"
    using map_name_updateFirst [of f q "candidateModel s"] nm
    by (metis set_map)
  with assms(1) have ex: "\<exists>c \<in> set (updateFirst q f (candidateModel s)). name c = n"
    by (auto simp: unlisted_def image_iff) (metis imageE imageI)
  have "stash c = None"
    if "c \<in> set (updateFirst q f (candidateModel s))" "name c = n" for c
  proof -
    from that(1) set_updateFirst [of q f "candidateModel s"]
    consider "c \<in> set (candidateModel s)" | d where "d \<in> set (candidateModel s)" "c = f d"
      by auto
    then show ?thesis
    proof cases
      case 1
      with assms(1) that(2) show ?thesis by (simp add: unlisted_def)
    next
      case 2
      with that(2) nm have "name d = n" by simp
      with 2 assms(1) have "stash d = None" by (simp add: unlisted_def)
      with assms(2) 2 show ?thesis by (simp add: assignsNoStash_stash)
    qed
  qed
  with ex show ?thesis
    by (simp add: unlisted_def candidate_findOneAndUpdate_def)
qed

lemma unlisted_updateMany:
  assumes "unlisted n s" and "assignsNoStash f"
  shows "unlisted n (candidate_updateMany f s)"
proof -
  from assms(2) have nm: "name (f c) = name c" for c by (rule assignsNoStash_name)
  from assms(2) have st: "stash c = None \<Longrightarrow> stash (f c) = None" for c
    by (rule assignsNoStash_stash)
  from assms(1) show ?thesis
    by (auto simp: unlisted_def candidate_updateMany_def nm st)
qed

lemma unlisted_save:
  "unlisted n s \<Longrightarrow> stash c = None \<Longrightarrow> unlisted n (candidate_save c s)"
  by (auto simp: unlisted_def candidate_save_def)

lemma assignsNoStash_fields [simp]:
  "assignsNoStash (\<lambda>c. c\<lparr>invalidity := rs\<rparr>)"
  "assignsNoStash (\<lambda>c. c\<lparr>rankEvents := rankEvents c @ re\<rparr>)"
  "assignsNoStash (\<lambda>c. c\<lparr>faultEvents := faultEvents c @ fe\<rparr>)"
  "assignsNoStash (\<lambda>c. c\<lparr>offlineSince := a, onlineSince := b, offlineAccumulated := x,
      invalidity := rs\<rparr>)"
  "assignsNoStash (\<lambda>c. c\<lparr>telemetryId := t, discoveredAt := a, onlineSince := b,
      offlineSince := x, invalidity := rs\<rparr>)"
  "assignsNoStash (\<lambda>c. c\<lparr>telemetryId := t, onlineSince := b, version := v,
      invalidity := rs, nodeRefs := inc k (nodeRefs c)\<rparr>)"
  "assignsNoStash (\<lambda>c. c\<lparr>offlineSince := a, offlineAccumulated := x\<rparr>)"
  "assignsNoStash (\<lambda>c. c\<lparr>nodeRefs := inc k (nodeRefs c), invalidity := rs\<rparr>)"
  "assignsNoStash (\<lambda>c. c\<lparr>offlineSince := a, onlineSince := b,
      nodeRefs := inc k (nodeRefs c), invalidity := rs\<rparr>)"
  "assignsNoStash clearCandidate"
  by (simp_all add: assignsNoStash_def clearCandidate_def)

lemma unlisted_setInvalidityOfType:
  "unlisted n s \<Longrightarrow> unlisted n (setInvalidityOfType ty text clock address validity s)"
  by (simp add: setInvalidityOfType_def Let_def unlisted_findOneAndUpdate split: option.splits)

lemma unlisted_push:
  "unlisted n s \<Longrightarrow> unlisted n (snd (pushRankEvent clock st e a s))"
  "unlisted n s \<Longrightarrow> unlisted n (snd (pushFaultEvent clock st r s))"
  by (simp_all add: pushRankEvent_def pushFaultEvent_def Let_def unlisted_findOneAndUpdate
      split: option.splits)

lemma unlisted_reportBestBlock:
  "unlisted n s \<Longrightarrow> unlisted n (snd (reportBestBlock sel clock t d now s))"
  by (simp add: reportBestBlock_def Let_def unlisted_findOneAndUpdate split: option.splits)

lemma unlisted_reportOffline:
  "unlisted n s \<Longrightarrow> unlisted n (snd (reportOffline clock t nm now s))"
  by (simp add: reportOffline_def Let_def unlisted_findOneAndUpdate split: option.splits)

lemma unlisted_reportOnline:
  "unlisted n s \<Longrightarrow> unlisted n (snd (reportOnline clock t d now s))"
  by (simp add: reportOnline_def Let_def unlisted_findOneAndUpdate unlisted_save
      newCandidate_def split: option.splits)

lemma unlisted_run: "unlisted n s \<Longrightarrow> unlisted n (run sel clock w s)"
  by (cases w)
    (simp_all add: setOnlineValidity_def setValidateIntentionValidity_def
      setLatestClientReleaseValidity_def setConnectionTimeInvalidity_def
      setIdentityInvalidity_def setOfflineAccumulatedInvalidity_def
      setRewardDestinationInvalidity_def setCommissionInvalidity_def
      setSelfStakeInvalidity_def setUnclaimedInvalidity_def setBlockedInvalidity_def
      setKusamaRankInvalidity_def unlisted_setInvalidityOfType unlisted_reportOnline
      unlisted_reportOffline unlisted_reportBestBlock)

lemma unlisted_exec:
  "unlisted n s \<Longrightarrow> noStashWriter op \<Longrightarrow> unlisted n (exec sel op s)"
proof (cases op)
  case (Pair clock c)
  assume "unlisted n s" "noStashWriter op"
  with Pair show ?thesis
    by (cases c)
      (simp_all add: unlisted_run unlisted_push unlisted_findOneAndUpdate unlisted_updateMany)
qed

lemma unlisted_fold:
  "unlisted n s \<Longrightarrow> list_all noStashWriter ops \<Longrightarrow> unlisted n (fold (exec sel) ops s)"
  by (induction ops arbitrary: s) (simp_all add: unlisted_exec)

lemma metadata_findOneAndUpdate [simp]:
  "chainMetadataModel (candidate_findOneAndUpdate q f s) = chainMetadataModel s"
  "chainMetadataModel (candidate_save c s) = chainMetadataModel s"
  "chainMetadataModel (candidate_updateMany f s) = chainMetadataModel s"
  by (simp_all add: candidate_findOneAndUpdate_def candidate_save_def candidate_updateMany_def)

lemma metadata_setInvalidityOfType:
  "chainMetadataModel (setInvalidityOfType ty text clock address validity s) =
   chainMetadataModel s"
  by (simp add: setInvalidityOfType_def Let_def split: option.splits)

lemma metadata_run: "chainMetadataModel (run sel clock w s) = chainMetadataModel s"
  by (cases w)
    (simp_all add: setOnlineValidity_def setValidateIntentionValidity_def
      setLatestClientReleaseValidity_def setConnectionTimeInvalidity_def
      setIdentityInvalidity_def setOfflineAccumulatedInvalidity_def
      setRewardDestinationInvalidity_def setCommissionInvalidity_def
      setSelfStakeInvalidity_def setUnclaimedInvalidity_def setBlockedInvalidity_def
      setKusamaRankInvalidity_def metadata_setInvalidityOfType reportOnline_def
      reportOffline_def reportBestBlock_def Let_def split: option.splits)

lemma metadata_exec: "chainMetadataModel (exec sel op s) = chainMetadataModel s"
proof (cases op)
  case (Pair clock c)
  then show ?thesis
    by (cases c)
      (simp_all add: metadata_run pushRankEvent_def pushFaultEvent_def Let_def
        split: option.splits)
qed

lemma metadata_fold: "getChainMetadata (fold (exec sel) ops s) = getChainMetadata s"
  by (induction ops arbitrary: s) (simp_all add: getChainMetadata_def metadata_exec)

lemma unlisted_not_in_allCandidates:
  "unlisted n s \<Longrightarrow> \<forall>c \<in> set (allCandidates s). name c \<noteq> n"
  by (auto simp: unlisted_def allCandidates_def)

lemma updateFirst_mem:
  "findOne q docs = Some r \<Longrightarrow> f r \<in> set (updateFirst q f docs)"
  using findOne_Some_split [of q docs r] updateFirst_split [of _ q r f] by fastforce

lemma addCandidate_unlisted:
  assumes "unlisted n s" and "getChainMetadata s = Some meta"
  shows "case enc st (ss58Prefix meta) of
           None \<Rightarrow> addCandidate enc n st ks sk b s = Inl InvalidAddress
         | Some a \<Rightarrow>
             \<exists>s'. addCandidate enc n st ks sk b s = Inr s' \<and>
                  (\<exists>c \<in> set (allCandidates s'). name c = n \<and> stash c = Some a)"
proof (cases "enc st (ss58Prefix meta)")
  case None
  with assms(2) show ?thesis by (simp add: addCandidate_def)
next
  case (Some a)
  from assms(1) have "findOne (\<lambda>c. name c = n) (candidateModel s) \<noteq> None"
    by (auto simp: unlisted_def findOne_None_iff)
  then obtain r where r: "findOne (\<lambda>c. name c = n) (candidateModel s) = Some r" by blast
  then have nr: "name r = n" using findOne_Some_mem by fastforce
  let ?f = "\<lambda>c::candidate. c\<lparr>stash := Some a, kusamaStash := Some ks,
      skipSelfStake := Some sk, bio := Some b\<rparr>"
  have "?f r \<in> set (updateFirst (\<lambda>c. name c = n) ?f (candidateModel s))"
    using r by (rule updateFirst_mem)
  then have "\<exists>c \<in> set (allCandidates (candidate_findOneAndUpdate (\<lambda>c. name c = n) ?f s)).
      name c = n \<and> stash c = Some a"
    using nr by (auto simp: allCandidates_def candidate_findOneAndUpdate_def intro!: bexI [of _ "?f r"])
  with assms(2) Some r show ?thesis
    by (simp add: addCandidate_def)
qed

text \<open>
  Claim C10. The document that \<open>reportOnline\<close> creates for a name not yet
  registered has no stash, and \<open>allCandidates\<close> returns only documents whose stash
  is set: the new document is among \<open>allNodes\<close> but not among \<open>allCandidates\<close>, whose
  result is the same as before the report. It stays unlisted through every sequence
  of the other candidate writers of \<open>Db\<close>. An \<open>addCandidate\<close> for that name that
  throws (no chain metadata, or a stash the keyring rejects) writes nothing; one
  whose stash the keyring accepts assigns the encoded stash, after which a document
  of that name is listed.
\<close>

theorem reportOnline_new_candidate_not_listed:
  assumes "findOne (\<lambda>c. name c = details0 d) (candidateModel s) = None"
  shows "\<exists>c. candidateModel (snd (reportOnline clock t d now s)) = candidateModel s @ [c] \<and>
           name c = details0 d \<and> stash c = None \<and>
           c \<in> set (allNodes (snd (reportOnline clock t d now s))) \<and>
           c \<notin> set (allCandidates (snd (reportOnline clock t d now s))) \<and>
           allCandidates (snd (reportOnline clock t d now s)) = allCandidates s \<and>
           (\<forall>ops. list_all noStashWriter ops \<longrightarrow>
              unlisted (details0 d) (fold (exec sel) ops (snd (reportOnline clock t d now s))) \<and>
              (\<forall>c' \<in> set (allCandidates
                          (fold (exec sel) ops (snd (reportOnline clock t d now s)))).
                 name c' \<noteq> details0 d)) \<and>
           (getChainMetadata s = None \<longrightarrow>
              addCandidate enc (details0 d) st ks sk b (snd (reportOnline clock t d now s))
                = Inl TypeError) \<and>
           (\<forall>meta. getChainMetadata s = Some meta \<longrightarrow>
              (\<forall>ops. list_all noStashWriter ops \<longrightarrow>
                 (case enc st (ss58Prefix meta) of
                    None \<Rightarrow>
                      addCandidate enc (details0 d) st ks sk b
                          (fold (exec sel) ops (snd (reportOnline clock t d now s)))
                        = Inl InvalidAddress
                  | Some a \<Rightarrow>
                      \<exists>s'. addCandidate enc (details0 d) st ks sk b
                               (fold (exec sel) ops (snd (reportOnline clock t d now s)))
                             = Inr s' \<and>
                           (\<exists>c' \<in> set (allCandidates s').
                              name c' = details0 d \<and> stash c' = Some a))) \<and>
              (\<forall>a. enc st (ss58Prefix meta) = Some a \<longrightarrow>
                 (\<exists>s'. addCandidate enc (details0 d) st ks sk b
                          (snd (reportOnline clock t d now s)) = Inr s' \<and>
                       candidateModel s' = candidateModel s @
                         [c\<lparr>stash := Some a, kusamaStash := Some ks,
                            skipSelfStake := Some sk, bio := Some b\<rparr>])))"
proof -
  define c where "c = (newCandidate (details0 d))\<lparr>telemetryId := Some t, networkId := None,
     nodeRefs := Some 1, version := Some (details2 d), discoveredAt := Some now,
     onlineSince := Some now, offlineSince := Some 0\<rparr>"
  let ?n = "details0 d"
  let ?s1 = "snd (reportOnline clock t d now s)"
  have s1: "?s1 = candidate_save c s"
    using assms by (simp add: reportOnline_def Let_def c_def)
  have cm: "candidateModel ?s1 = candidateModel s @ [c]"
    by (simp add: s1 candidate_save_def)
  have nm: "name c = ?n" and st: "stash c = None"
    by (simp_all add: c_def newCandidate_def)
  have meta: "getChainMetadata ?s1 = getChainMetadata s"
    by (simp add: s1 candidate_save_def getChainMetadata_def)
  have old: "\<forall>x \<in> set (candidateModel s). name x \<noteq> ?n"
    using assms by (simp add: findOne_None_iff)
  have un: "unlisted ?n ?s1"
    unfolding unlisted_def cm using nm st old by auto
  have found: "findOne (\<lambda>c. name c = ?n) (candidateModel ?s1) = Some c"
    unfolding cm using assms nm by (rule findOne_append_new)
  have upd: "updateFirst (\<lambda>c. name c = ?n) f (candidateModel ?s1) = candidateModel s @ [f c]"
    for f
    unfolding cm using assms nm by (rule updateFirst_append_new)
  have later: "unlisted ?n (fold (exec sel) ops ?s1) \<and>
      (\<forall>c' \<in> set (allCandidates (fold (exec sel) ops ?s1)). name c' \<noteq> ?n)"
    if "list_all noStashWriter ops" for ops
    using unlisted_fold [OF un that, of sel] unlisted_not_in_allCandidates by blast
  have noMeta: "addCandidate enc ?n st ks sk b ?s1 = Inl TypeError"
    if "getChainMetadata s = None"
    using that meta by (simp add: addCandidate_def)
  have add: "case enc st (ss58Prefix m) of
        None \<Rightarrow> addCandidate enc ?n st ks sk b (fold (exec sel) ops ?s1) = Inl InvalidAddress
      | Some a \<Rightarrow>
          \<exists>s'. addCandidate enc ?n st ks sk b (fold (exec sel) ops ?s1) = Inr s' \<and>
               (\<exists>c' \<in> set (allCandidates s'). name c' = ?n \<and> stash c' = Some a)"
    if "getChainMetadata s = Some m" "list_all noStashWriter ops" for m ops
  proof -
    have "unlisted ?n (fold (exec sel) ops ?s1)" using later [OF that(2)] by simp
    moreover have "getChainMetadata (fold (exec sel) ops ?s1) = Some m"
      using that(1) meta by (simp add: metadata_fold)
    ultimately show ?thesis by (rule addCandidate_unlisted)
  qed
  have now: "\<exists>s'. addCandidate enc ?n st ks sk b ?s1 = Inr s' \<and>
        candidateModel s' = candidateModel s @
          [c\<lparr>stash := Some a, kusamaStash := Some ks, skipSelfStake := Some sk,
             bio := Some b\<rparr>]"
    if "getChainMetadata s = Some m" "enc st (ss58Prefix m) = Some a" for m a
    using that meta found upd
    by (simp add: addCandidate_def candidate_findOneAndUpdate_def)
  have six: "c \<in> set (allNodes ?s1)" "c \<notin> set (allCandidates ?s1)"
    "allCandidates ?s1 = allCandidates s"
    using cm st by (simp_all add: allNodes_def allCandidates_def)
  show ?thesis
    using cm nm st six later noMeta add now by (intro exI [of _ c]) blast
qed

theorem reportOnline_new_candidate_not_listed_witness:
  "map name (allNodes (snd (reportOnline 100 8 bobDetails 50 seedDb))) = [''alice'', ''bob''] \<and>
   map name (allCandidates (snd (reportOnline 100 8 bobDetails 50 seedDb))) = [''alice''] \<and>
   unlisted ''bob''
     (fold (exec (\<lambda>t c. telemetryId c = Some t)) exampleOps
        (snd (reportOnline 100 8 bobDetails 50 seedDb))) \<and>
   addCandidate exampleKeyring ''bob'' ''B'' ''K'' False ''bio''
     (fold (exec (\<lambda>t c. telemetryId c = Some t)) exampleOps
        (snd (reportOnline 100 8 bobDetails 50 seedDb))) = Inl InvalidAddress \<and>
   (\<exists>s'. addCandidate exampleKeyring ''bob'' ''GOOD'' ''K'' False ''bio''
            (snd (reportOnline 100 8 bobDetails 50 seedDb)) = Inr s' \<and>
         map (\<lambda>c. (name c, stash c)) (allCandidates s') =
           [(''alice'', Some ''S''), (''bob'', Some ''ENCODED'')])"
proof -
  let ?s1 = "snd (reportOnline 100 8 bobDetails 50 seedDb)"
  let ?sel = "\<lambda>t c. telemetryId c = Some (t::int)"
  have d0: "details0 bobDetails = ''bob''" by (simp add: details0_def bobDetails_def)
  have none: "findOne (\<lambda>c. name c = details0 bobDetails) (candidateModel seedDb) = None"
    by (simp add: d0 findOne_def seedDb_def seedCandidate_def newCandidate_def emptyDb_def)
  have meta: "getChainMetadata seedDb = Some \<lparr>cm_name = ''Kusama'', cm_decimals = 12\<rparr>"
    by (simp add: getChainMetadata_def findOne_def seedDb_def emptyDb_def)
  have ops: "list_all noStashWriter exampleOps"
    by (simp add: exampleOps_def)
  have seed: "map name (candidateModel seedDb) = [''alice'']"
    "map (\<lambda>c. (name c, stash c)) (allCandidates seedDb) = [(''alice'', Some ''S'')]"
    "map name (allCandidates seedDb) = [''alice'']"
    by (simp_all add: allCandidates_def seedDb_def seedCandidate_def newCandidate_def emptyDb_def)
  have bad: "exampleKeyring ''B'' (ss58Prefix \<lparr>cm_name = ''Kusama'', cm_decimals = 12\<rparr>) = None"
    and good: "exampleKeyring ''GOOD'' (ss58Prefix \<lparr>cm_name = ''Kusama'', cm_decimals = 12\<rparr>)
      = Some ''ENCODED''"
    by (simp_all add: exampleKeyring_def)
  from reportOnline_new_candidate_not_listed
         [OF none, where clock = 100 and t = 8 and now = 50 and sel = ?sel
            and enc = exampleKeyring and st = "''B''" and ks = "''K''" and sk = False
            and b = "''bio''"]
  have un: "unlisted ''bob'' (fold (exec ?sel) exampleOps ?s1)"
    and rej: "addCandidate exampleKeyring ''bob'' ''B'' ''K'' False ''bio''
        (fold (exec ?sel) exampleOps ?s1) = Inl InvalidAddress"
    using ops meta bad unfolding d0 by (fastforce, fastforce)
  from reportOnline_new_candidate_not_listed
         [OF none, where clock = 100 and t = 8 and now = 50 and sel = ?sel
            and enc = exampleKeyring and st = "''GOOD''" and ks = "''K''" and sk = False
            and b = "''bio''"]
  obtain c s' where
    cm: "candidateModel ?s1 = candidateModel seedDb @ [c]" and nm: "name c = ''bob''"
    and ac: "allCandidates ?s1 = allCandidates seedDb"
    and ok: "addCandidate exampleKeyring ''bob'' ''GOOD'' ''K'' False ''bio'' ?s1 = Inr s'"
    and cm': "candidateModel s' = candidateModel seedDb @
       [c\<lparr>stash := Some ''ENCODED'', kusamaStash := Some ''K'', skipSelfStake := Some False,
          bio := Some ''bio''\<rparr>]"
    using meta good unfolding d0 by fastforce
  have "map (\<lambda>c. (name c, stash c)) (allCandidates s') =
      [(''alice'', Some ''S''), (''bob'', Some ''ENCODED'')]"
    using seed(2) nm by (simp add: allCandidates_def cm')
  with cm nm ac seed un rej ok show ?thesis
    by (simp add: allNodes_def)
qed

subsection \<open>The median of an era's points\<close>

lemma middle_nth:
  "ys \<noteq> [] \<Longrightarrow>
   middle ys =
     (if even (length ys)
      then Some ((of_int (ys ! (length ys div 2 - 1)) + of_int (ys ! (length ys div 2))) / 2)
      else Some (of_int (ys ! ((length ys - 1) div 2))))"
proof (induction ys rule: middle.induct)
  case 1
  then show ?case by simp
next
  case (2 x)
  show ?case by simp
next
  case (3 x y)
  show ?case by simp
next
  case (4 x y v va)
  let ?in = "butlast (y # v # va)"
  have len: "length ?in = Suc (length va)" by (simp del: butlast.simps)
  have ne: "?in \<noteq> []" by simp
  have nth: "?in ! i = (x # y # v # va) ! Suc i" if "i < Suc (length va)" for i
  proof -
    from that have "i < length ?in" by (simp del: butlast.simps)
    then have "?in ! i = (y # v # va) ! i" by (rule nth_butlast)
    then show ?thesis by simp
  qed
  have m: "middle (x # y # v # va) = middle ?in" by simp
  show ?case
  proof (cases "even (length va)")
    case True
    then obtain k where k: "length va = 2 * k" by (auto elim: evenE)
    have "middle ?in = Some (of_int (?in ! k))"
      using "4.IH" [OF ne] len k by (simp del: butlast.simps)
    also have "?in ! k = (x # y # v # va) ! Suc k"
      using k by (intro nth) simp
    finally show ?thesis
      using m k by (simp del: butlast.simps middle.simps)
  next
    case False
    then obtain k where k: "length va = 2 * k + 1" by (auto elim: oddE)
    have "middle ?in = Some ((of_int (?in ! k) + of_int (?in ! Suc k)) / 2)"
      using "4.IH" [OF ne] len k by (simp del: butlast.simps)
    also have "?in ! k = (x # y # v # va) ! Suc k"
      using k by (intro nth) simp
    also have "?in ! Suc k = (x # y # v # va) ! Suc (Suc k)"
      using k by (intro nth) simp
    finally show ?thesis
      using m k by (simp del: butlast.simps middle.simps)
  qed
qed

text \<open>
  Claim C7. The median computed when the TotalEraPoints record is stored: for a
  non-empty list of points it is, after sorting ascending (a sorted permutation of
  the input), the middle element when the length is odd and the mean of the two
  middle elements when the length is even; it is undefined on the empty list. It
  agrees with the spec's definition on every input, and \<open>[1,3,5,7]\<close> and \<open>[2,4,9]\<close>
  both give 4.
\<close>

theorem getMedian_is_median:
  "getMedian points = median_spec points \<and>
   (points = [] \<longrightarrow> getMedian points = None) \<and>
   (points \<noteq> [] \<and> odd (length points) \<longrightarrow>
      getMedian points = Some (of_int (sort points ! (length points div 2)))) \<and>
   (points \<noteq> [] \<and> even (length points) \<longrightarrow>
      getMedian points =
        Some ((of_int (sort points ! (length points div 2 - 1))
               + of_int (sort points ! (length points div 2))) / 2)) \<and>
   sorted (sort points) \<and> mset (sort points) = mset points \<and>
   getMedian [1, 3, 5, 7] = Some 4 \<and> getMedian [2, 4, 9] = Some 4 \<and> getMedian [] = None"
proof -
  have spec: "getMedian points = median_spec points"
  proof (cases "points = []")
    case True
    then show ?thesis by (simp add: getMedian_def median_spec_def)
  next
    case False
    then have "sort points \<noteq> []" by (metis length_sort length_0_conv)
    from middle_nth [OF this] False show ?thesis
      by (cases points) (simp_all add: getMedian_def median_spec_def Let_def even_iff_mod_2_eq_zero)
  qed
  have odd: "getMedian points = Some (of_int (sort points ! (length points div 2)))"
    if "points \<noteq> []" "odd (length points)"
  proof -
    from that(2) have "(length points - 1) div 2 = length points div 2"
      by (auto elim!: oddE)
    with that show ?thesis
      by (cases points) (simp_all add: getMedian_def Let_def even_iff_mod_2_eq_zero)
  qed
  have even: "getMedian points =
        Some ((of_int (sort points ! (length points div 2 - 1))
               + of_int (sort points ! (length points div 2))) / 2)"
    if "points \<noteq> []" "even (length points)"
    using that by (cases points) (simp_all add: getMedian_def Let_def even_iff_mod_2_eq_zero)
  have ex: "getMedian [1, 3, 5, 7] = Some 4" "getMedian [2, 4, 9] = Some 4" "getMedian [] = None"
    by (simp_all add: getMedian_def)
  show ?thesis
    using spec odd even ex by simp
qed

theorem getMedian_is_median_witness:
  "getMedian [7, 1, 5, 3] = Some 4 \<and> getMedian [9, 2, 4] = Some 4 \<and>
   median_spec [7, 1, 5, 3] = Some 4"
  using getMedian_is_median [of "[7, 1, 5, 3]"] getMedian_is_median [of "[9, 2, 4]"]
  by (simp add: median_spec_def)

subsection \<open>The eras the job visits\<close>

lemma visited_upto: "visited a i = rev [max 0 (a - 83) .. i]"
proof (induction a i rule: visited.induct)
  case (1 a i)
  show ?case
  proof (cases "i > a - 84 \<and> i \<ge> 0")
    case True
    then have le: "max 0 (a - 83) \<le> i" by simp
    have "visited a i = i # visited a (i - 1)"
      using True by (subst visited.simps) simp
    also have "\<dots> = i # rev [max 0 (a - 83) .. i - 1]"
      using 1 True by simp
    also have "\<dots> = rev [max 0 (a - 83) .. i]"
      using le by (simp add: upto_rec2)
    finally show ?thesis .
  next
    case False
    then have "visited a i = []" by (subst visited.simps) simp
    moreover from False have "[max 0 (a - 83) .. i] = []" by auto
    ultimately show ?thesis by simp
  qed
qed

lemma set_visited: "set (visited a (a - 1)) = {max 0 (a - 83) .. a - 1}"
  unfolding visited_upto by (simp only: set_rev set_upto)

lemma length_visited: "length (visited a (a - 1)) = nat (a - 1 - max 0 (a - 83) + 1)"
  unfolding visited_upto by (simp only: length_rev length_upto)

text \<open>
  Claim C6 as stated has the loop visit the 84 eras before the active one. At
  active era 84 the loop visits the 83 eras 83 down to 1: era 0, the 84th era
  before the active one, is not visited.
\<close>

theorem eraPointsJob_misses_84th_prior_era:
  "0 \<notin> set (visited 84 (84 - 1)) \<and> length (visited 84 (84 - 1)) = 83"
  unfolding set_visited length_visited by simp

text \<open>
  Claim C6, amended. For every active era the backfill loop terminates and visits
  exactly the eras \<open>activeEra - 1\<close> down to \<open>max 0 (activeEra - 83)\<close>, at most
  83 of them and none negative; the active era itself is refreshed after the loop,
  which makes a window of 84 eras. When \<open>0 < activeEra < 84\<close> the loop ends at
  era 0 after \<open>activeEra\<close> iterations.
\<close>

theorem eraPointsJob_visits_prior_83_eras:
  "visited activeEra (activeEra - 1) = rev [max 0 (activeEra - 83) .. activeEra - 1] \<and>
   set (visited activeEra (activeEra - 1)) =
     {i. 0 \<le> i \<and> activeEra - 83 \<le> i \<and> i < activeEra} \<and>
   length (visited activeEra (activeEra - 1)) = nat (min activeEra 83) \<and>
   (0 < activeEra \<and> activeEra < 84 \<longrightarrow>
      last (visited activeEra (activeEra - 1)) = 0 \<and>
      length (visited activeEra (activeEra - 1)) = nat activeEra)"
proof -
  have l: "last (visited activeEra (activeEra - 1)) = 0" if "0 < activeEra" "activeEra < 84"
  proof -
    from that have m: "max 0 (activeEra - 83) = 0" by simp
    from that have u: "[0 .. activeEra - 1] = 0 # [0 + 1 .. activeEra - 1]"
      by (subst upto_rec1) simp_all
    have "visited activeEra (activeEra - 1) = rev [0 .. activeEra - 1]"
      unfolding visited_upto m ..
    also have "\<dots> = rev [0 + 1 .. activeEra - 1] @ [0]"
      unfolding u by (simp only: rev.simps)
    finally show ?thesis by (simp only: last_snoc)
  qed
  have s: "set (visited activeEra (activeEra - 1)) =
      {i. 0 \<le> i \<and> activeEra - 83 \<le> i \<and> i < activeEra}"
    unfolding set_visited by auto
  have n: "length (visited activeEra (activeEra - 1)) = nat (min activeEra 83)"
    unfolding length_visited by simp
  have n': "length (visited activeEra (activeEra - 1)) = nat activeEra"
    if "0 < activeEra" "activeEra < 84"
    using that unfolding n by simp
  show ?thesis
    using visited_upto [of activeEra "activeEra - 1"] l s n n' by blast
qed

theorem eraPointsJob_visits_prior_83_eras_witness:
  "visited 5 (5 - 1) = [4, 3, 2, 1, 0] \<and> last (visited 5 (5 - 1)) = 0 \<and>
   length (visited 5 (5 - 1)) = 5"
proof -
  have "visited 5 (5 - 1) = rev [max 0 (5 - 83) .. 5 - 1]"
    using eraPointsJob_visits_prior_83_eras [of 5] by (rule conjunct1)
  then show ?thesis by (simp add: upto_rec1)
qed

subsection \<open>Writes of the era points job\<close>

lemma visited_2: "visited 2 (2 - 1) = [1, 0]"
  by (simp add: visited_upto upto_rec1)

lemmas era_defs = eraPointsJob_def eraStep_def skipEra_def getTotalEraPoints_def
  setTotalEraPoints_def setEraPoints_def exampleChain_def Let_def findOne_def data_total_def
  looseEq_def truthyRat_def getAverage_def getMedian_def maxOf_def minOf_def exampleTotal_def
  examplePoints_def emptyDb_def populatedDb_def

lemma first_run: "eraPointsJob exampleChain 2 emptyDb = Inr populatedDb"
  by (simp add: visited_2 era_defs)

lemma second_run:
  "eraPointsJob exampleChain 2 populatedDb = Inr (populatedDb\<lparr>writes := Suc (writes populatedDb)\<rparr>)"
  by (simp add: visited_2 era_defs)

lemma populated:
  "skipEra (getTotalEraPoints 0 populatedDb)" "skipEra (getTotalEraPoints 1 populatedDb)"
  "skipEra (getTotalEraPoints 2 populatedDb)"
  by (simp_all add: era_defs)

lemma setEraPoints_writes: "writes s \<le> writes (setEraPoints era points address s)"
  by (simp add: setEraPoints_def Let_def split: option.splits)

lemma fold_setEraPoints_writes:
  "writes s \<le> writes (fold (\<lambda>v. setEraPoints era (vp_eraPoints v) (vp_address v)) vs s)"
proof (induction vs arbitrary: s)
  case Nil
  show ?case by simp
next
  case (Cons v vs)
  have "writes s \<le> writes (setEraPoints era (vp_eraPoints v) (vp_address v) s)"
    by (rule setEraPoints_writes)
  also have "\<dots> \<le> writes (fold (\<lambda>v. setEraPoints era (vp_eraPoints v) (vp_address v)) vs
      (setEraPoints era (vp_eraPoints v) (vp_address v) s))"
    by (rule Cons.IH)
  finally show ?case by simp
qed

lemma setTotalEraPoints_writes:
  assumes "setTotalEraPoints era t vs s = Inr s'"
  shows "writes s < writes s'"
proof -
  let ?s1 = "fold (\<lambda>v. setEraPoints era (vp_eraPoints v) (vp_address v)) vs s"
  have "writes s' = Suc (writes ?s1)"
    using assms
    by (auto simp: setTotalEraPoints_def Let_def data_total_def looseEq_def
        split: option.splits sum.splits)
  with fold_setEraPoints_writes [of s era vs] show ?thesis by simp
qed

lemma eraStep_writes:
  "eraStep chain i (Inr s) = Inr s' \<Longrightarrow> writes s \<le> writes s'"
  using setTotalEraPoints_writes [of "ce_era (chain i)" "ce_total (chain i)"
      "ce_validators (chain i)" s s']
  by (auto simp: eraStep_def split: if_splits)

lemma eraStep_Inl: "fold (eraStep chain) is (Inl e) = Inl e"
  by (induction "is") (simp_all add: eraStep_def)

lemma fold_eraStep_writes:
  "fold (eraStep chain) is (Inr s) = Inr s' \<Longrightarrow> writes s \<le> writes s'"
proof (induction "is" arbitrary: s)
  case Nil
  then show ?case by simp
next
  case (Cons i "is")
  show ?case
  proof (cases "eraStep chain i (Inr s)")
    case (Inl e)
    with Cons.prems show ?thesis by (simp add: eraStep_Inl)
  next
    case (Inr s1)
    with Cons.prems have "fold (eraStep chain) is (Inr s1) = Inr s'" by simp
    from Cons.IH [OF this] eraStep_writes [OF Inr] show ?thesis by simp
  qed
qed

lemma eraPointsJob_writes:
  assumes "eraPointsJob chain activeEra s = Inr s'"
  shows "writes s < writes s'"
proof -
  from assms obtain s1 where
    1: "fold (eraStep chain) (visited activeEra (activeEra - 1)) (Inr s) = Inr s1" and
    2: "setTotalEraPoints (ce_era (chain activeEra)) (ce_total (chain activeEra))
          (ce_validators (chain activeEra)) s1 = Inr s'"
    by (auto simp: eraPointsJob_def split: sum.splits)
  from fold_eraStep_writes [OF 1] setTotalEraPoints_writes [OF 2] show ?thesis by simp
qed

text \<open>
  Claim C4 says that a second run of the job over a fully populated window, with
  the chain unchanged, performs no store write. The run below is such a second
  run: the first run at active era 2 on the empty store leaves \<open>populatedDb\<close>, in
  which every era of the window has a TotalEraPoints row with at least 70000
  points and a median, and the second run issues one more write, the update of
  the TotalEraPoints row of the active era.
\<close>

theorem eraPointsJob_second_run_writes:
  "eraPointsJob exampleChain 2 emptyDb = Inr populatedDb \<and>
   skipEra (getTotalEraPoints 0 populatedDb) \<and>
   skipEra (getTotalEraPoints 1 populatedDb) \<and>
   skipEra (getTotalEraPoints 2 populatedDb) \<and>
   eraPointsJob exampleChain 2 populatedDb =
     Inr (populatedDb\<lparr>writes := Suc (writes populatedDb)\<rparr>)"
  using first_run second_run populated by simp

subsection \<open>Inserting a delayed transaction twice\<close>

lemma addDelayedTx_no_index:
  "addDelayedTx False number controller targets callHash s =
     Inr (s\<lparr>delayedTxModel := delayedTxModel s @
              [\<lparr>dtx_number = number, dtx_controller = controller, dtx_targets = targets,
                dtx_callHash = callHash\<rparr>],
            writes := Suc (writes s)\<rparr>)"
  by (simp add: addDelayedTx_def)

lemma addDelayedTxTwice_no_index:
  "\<exists>s2. addDelayedTxTwice False number controller targets callHash s = Inr s2 \<and>
     delayedTxModel s2 = delayedTxModel s @
       [\<lparr>dtx_number = number, dtx_controller = controller, dtx_targets = targets,
         dtx_callHash = callHash\<rparr>,
        \<lparr>dtx_number = number, dtx_controller = controller, dtx_targets = targets,
         dtx_callHash = callHash\<rparr>]"
  by (simp add: addDelayedTxTwice_def addDelayedTx_no_index)

lemma addDelayedTxTwice_unique_index:
  "addDelayedTxTwice True number controller targets callHash s = Inl DuplicateKey"
  by (simp add: addDelayedTxTwice_def addDelayedTx_def)

text \<open>
  Claim C8 says that DelayedTx rows are unique on (number, controller) and that a
  second \<open>addDelayedTx\<close> with the same arguments leaves the store as the first one
  did, with a single row. On a collection without a unique index the second call
  inserts a second, identical row; with the index the second call is rejected
  with a duplicate-key error instead of being absorbed.
\<close>

theorem addDelayedTx_twice_leaves_two_rows:
  "addDelayedTx False 100 ''C'' [''T''] ''H'' emptyDb =
     Inr (emptyDb\<lparr>delayedTxModel :=
       [\<lparr>dtx_number = 100, dtx_controller = ''C'', dtx_targets = [''T''],
         dtx_callHash = ''H''\<rparr>], writes := 1\<rparr>) \<and>
   addDelayedTxTwice False 100 ''C'' [''T''] ''H'' emptyDb =
     Inr (emptyDb\<lparr>delayedTxModel :=
       [\<lparr>dtx_number = 100, dtx_controller = ''C'', dtx_targets = [''T''],
         dtx_callHash = ''H''\<rparr>,
        \<lparr>dtx_number = 100, dtx_controller = ''C'', dtx_targets = [''T''],
         dtx_callHash = ''H''\<rparr>], writes := 2\<rparr>) \<and>
   addDelayedTxTwice True 100 ''C'' [''T''] ''H'' emptyDb = Inl DuplicateKey"
  by (simp add: addDelayedTxTwice_def addDelayedTx_def emptyDb_def)

subsection \<open>Overlapping ticks\<close>

lemma latch_invariant:
  assumes "hasLatch j" and "inFlight c \<le> 1" and "inFlight c = 1 \<longrightarrow> running c"
  shows "inFlight (onEvent j e c) \<le> 1 \<and> (inFlight (onEvent j e c) = 1 \<longrightarrow> running (onEvent j e c))"
  using assms by (cases e) auto

lemma latch_at_most_one_body:
  assumes "hasLatch j" and "inFlight c \<le> 1" and "inFlight c = 1 \<longrightarrow> running c"
  shows "inFlight (trace j events c) \<le> 1"
  using assms(2,3)
proof (induction events arbitrary: c)
  case Nil
  then show ?case by (simp add: trace_def)
next
  case (Cons e events)
  from latch_invariant [OF assms(1) Cons.prems]
  have "inFlight (trace j events (onEvent j e c)) \<le> 1"
    by (intro Cons.IH) simp_all
  then show ?case by (simp add: trace_def)
qed

lemma no_latch_every_tick_enters:
  "\<not> hasLatch j \<Longrightarrow>
   inFlight (trace j (replicate n Tick) c) = inFlight c + n \<and>
   entered (trace j (replicate n Tick) c) = entered c + n"
  by (induction n arbitrary: c) (simp_all add: trace_def)

text \<open>
  Claim C1 says that for every registered job a tick that fires while a body of
  the same job is running starts no second body. The callback of the Execution
  job has no latch: its second tick enters a second body while the first is in
  flight. The Validity job, which has the latch, drops the second tick.
\<close>

theorem execution_tick_starts_second_body:
  "inFlight (trace Execution [Tick, Tick] idle) = 2 \<and>
   entered (trace Execution [Tick, Tick] idle) = 2 \<and>
   inFlight (trace Validity [Tick, Tick] idle) = 1 \<and>
   entered (trace Validity [Tick, Tick] idle) = 1"
  by (simp add: trace_def idle_def)

subsection \<open>A body that throws\<close>

lemma latch_stuck:
  assumes "hasLatch j" and "running c" and "inFlight c = 0"
  shows "trace j events c = c"
proof (induction events)
  case Nil
  show ?case by (simp add: trace_def)
next
  case (Cons e events)
  have "onEvent j e c = c" using assms by (cases e) simp_all
  with Cons show ?case by (simp add: trace_def)
qed

lemma throw_leaves_latch_set:
  assumes "hasLatch j" and "\<not> catches j"
  shows "trace j ([Tick, BodyThrows] @ events) idle =
           \<lparr>running = True, inFlight = 0, entered = 1, rejected = 1\<rparr>"
proof -
  have "trace j [Tick, BodyThrows] idle = \<lparr>running = True, inFlight = 0, entered = 1, rejected = 1\<rparr>"
    using assms by (simp add: trace_def idle_def)
  moreover have "trace j events \<lparr>running = True, inFlight = 0, entered = 1, rejected = 1\<rparr>
      = \<lparr>running = True, inFlight = 0, entered = 1, rejected = 1\<rparr>"
    using assms(1) by (rule latch_stuck) simp_all
  ultimately show ?thesis by (simp add: trace_def)
qed

text \<open>
  Claim C3 says that for every registered job a body that throws releases the
  latch, so that the next tick runs. In the Validity job the statement that
  clears the latch is skipped by the throw: the callback's promise rejects, the
  latch stays set and every later tick is dropped. The EraPoints job, whose body
  is inside \<open>try\<close>/\<open>catch\<close>, clears the latch and enters again at the next tick.
\<close>

theorem validity_throw_keeps_latch:
  "trace Validity [Tick, BodyThrows] idle =
     \<lparr>running = True, inFlight = 0, entered = 1, rejected = 1\<rparr> \<and>
   trace Validity [Tick, BodyThrows, Tick, Tick] idle =
     \<lparr>running = True, inFlight = 0, entered = 1, rejected = 1\<rparr> \<and>
   trace EraPoints [Tick, BodyThrows, Tick] idle =
     \<lparr>running = True, inFlight = 1, entered = 2, rejected = 0\<rparr>"
  by (simp add: trace_def idle_def)

end
